theory Spec2Isabelle
  imports Complex_Main "HOL-Library.Word"
begin

section \<open>CreditZen: the client-side encryption and session-key core\<close>

text \<open>
  The development follows the TypeScript sources: \<^verbatim>\<open>cryptoUtils.ts\<close> (Base64 codec,
  \<^verbatim>\<open>encryptData\<close>, \<^verbatim>\<open>decryptData\<close>), \<^verbatim>\<open>authService.ts\<close> (the session
  controller) and \<^verbatim>\<open>storageService.ts\<close> (the sync coordinator and the wallet
  operations). Browser services that the sources call but do not implement (Web Crypto,
  \<^verbatim>\<open>JSON\<close>, the network) are parameters of the model; \<^verbatim>\<open>window.btoa\<close> and
  \<^verbatim>\<open>window.atob\<close> are written out as the HTML Standard defines them.
\<close>

subsection \<open>Errors\<close>

datatype error =
    InvalidCharacterError
  | SyntaxError
  | OperationError
  | Error string

text \<open>
  \<open>InvalidCharacterError\<close> is \<^verbatim>\<open>atob\<close>'s exception, \<open>SyntaxError\<close> that of
  \<^verbatim>\<open>JSON.parse\<close>, \<open>OperationError\<close> a rejected \<^verbatim>\<open>crypto.subtle\<close> promise, and
  \<open>Error m\<close> is \<^verbatim>\<open>new Error(m)\<close> or an error object of the authentication client with
  message \<open>m\<close>.
\<close>

subsection \<open>Codec: \<^verbatim>\<open>window.btoa\<close> and \<^verbatim>\<open>window.atob\<close>\<close>

text \<open>
  A byte of a \<^verbatim>\<open>Uint8Array\<close> is an \<open>8 word\<close>. The strings of the codec are binary
  strings: every code unit that \<^verbatim>\<open>bufferToBase64\<close> builds is below 256, so a code unit
  is a \<open>char\<close> and \<^verbatim>\<open>btoa\<close>'s refusal of code points above 255 has no input here.
\<close>

type_synonym byte = "8 word"

definition b64chars :: string where
  "b64chars = ''ABCDEFGHIJKLMNOPQRSTUVWXYZabcdefghijklmnopqrstuvwxyz0123456789+/''"

definition b64char :: "nat \<Rightarrow> char" where
  "b64char i = b64chars ! (i mod 64)"

text \<open>The sextets of a binary string, three octets giving four sextets, the last group short.\<close>

fun sextets :: "nat list \<Rightarrow> nat list" where
  "sextets [] = []"
| "sextets [a] = [a div 4, (a mod 4) * 16]"
| "sextets [a, b] = [a div 4, (a mod 4) * 16 + b div 16, (b mod 16) * 4]"
| "sextets (a # b # c # rest) =
     [a div 4, (a mod 4) * 16 + b div 16, (b mod 16) * 4 + c div 64, c mod 64] @ sextets rest"

definition padding :: "nat \<Rightarrow> string" where
  "padding n = replicate ((3 - n mod 3) mod 3) (CHR ''='')"

text \<open>\<^verbatim>\<open>btoa\<close>: standard Base64 with padding of the string's code units.\<close>

definition btoa :: "string \<Rightarrow> string" where
  "btoa s = map b64char (sextets (map of_char s)) @ padding (length s)"

definition is_ascii_whitespace :: "char \<Rightarrow> bool" where
  "is_ascii_whitespace c = (of_char c \<in> {9, 10, 12, 13, 32 :: nat})"

fun index_of :: "'a \<Rightarrow> 'a list \<Rightarrow> nat option" where
  "index_of x [] = None"
| "index_of x (y # ys) = (if x = y then Some 0 else map_option Suc (index_of x ys))"

definition b64index :: "char \<Rightarrow> nat option" where
  "b64index c = index_of c b64chars"

text \<open>Step 2 of the forgiving decode: one or two trailing \<open>=\<close> are removed.\<close>

definition strip_padding :: "string \<Rightarrow> string" where
  "strip_padding d =
     (case rev d of
        x # y # r \<Rightarrow>
          (if x = CHR ''='' \<and> y = CHR ''='' then rev r
           else if x = CHR ''='' then rev (y # r) else d)
      | [x] \<Rightarrow> (if x = CHR ''='' then [] else d)
      | [] \<Rightarrow> d)"

fun all_some :: "'a option list \<Rightarrow> 'a list option" where
  "all_some [] = Some []"
| "all_some (None # _) = None"
| "all_some (Some x # xs) = map_option ((#) x) (all_some xs)"

text \<open>
  The octets of a sextet sequence. A sequence of length 1 modulo 4 never reaches this
  function (\<open>atob\<close> refuses it before); the lone sextet is dropped.
\<close>

fun octets :: "nat list \<Rightarrow> nat list" where
  "octets (p # q # r # s # rest) =
     [p * 4 + q div 16, (q mod 16) * 16 + r div 4, (r mod 4) * 64 + s] @ octets rest"
| "octets [p, q, r] = [p * 4 + q div 16, (q mod 16) * 16 + r div 4]"
| "octets [p, q] = [p * 4 + q div 16]"
| "octets [p] = []"
| "octets [] = []"

text \<open>\<^verbatim>\<open>atob\<close>: the forgiving-base64 decode; \<open>Inl InvalidCharacterError\<close> is its exception.\<close>

definition atob :: "string \<Rightarrow> error + string" where
  "atob s =
     (let d = filter (\<lambda>c. \<not> is_ascii_whitespace c) s;
          d = (if length d mod 4 = 0 then strip_padding d else d)
      in if length d mod 4 = 1 then Inl InvalidCharacterError
         else (case all_some (map b64index d) of
                 None \<Rightarrow> Inl InvalidCharacterError
               | Some ss \<Rightarrow> Inr (map char_of (octets ss))))"

subsection \<open>Codec: \<^verbatim>\<open>bufferToBase64\<close> and \<^verbatim>\<open>base64ToBuffer\<close>\<close>

text \<open>
  \<^verbatim>\<open>binary += String.fromCharCode(bytes[i])\<close> for every index, then \<^verbatim>\<open>btoa\<close>.
\<close>

definition bufferToBase64 :: "byte list \<Rightarrow> string" where
  "bufferToBase64 buffer = btoa (map (\<lambda>b. char_of (unat b)) buffer)"

text \<open>
  \<^verbatim>\<open>atob\<close>, then \<^verbatim>\<open>bytes[i] = binary_string.charCodeAt(i)\<close>; the store into the
  \<^verbatim>\<open>Uint8Array\<close> keeps the low eight bits.
\<close>

definition base64ToBuffer :: "string \<Rightarrow> error + byte list" where
  "base64ToBuffer base64 =
     (case atob base64 of
        Inl e \<Rightarrow> Inl e
      | Inr binary_string \<Rightarrow> Inr (map (\<lambda>c. of_nat (of_char c)) binary_string))"

subsection \<open>The browser services the sources call\<close>

text \<open>
  \<^verbatim>\<open>JSON.stringify\<close> and \<^verbatim>\<open>JSON.parse\<close> at one TypeScript type: \<open>parse\<close> gives
  \<open>None\<close> where \<^verbatim>\<open>JSON.parse\<close> throws.
\<close>

record 'a json =
  stringify :: "'a \<Rightarrow> string"
  parse :: "string \<Rightarrow> 'a option"

record encryptedPayload =
  iv :: string
  ciphertext :: string

text \<open>
  \<open>'k\<close> is \<^verbatim>\<open>CryptoKey\<close>, \<open>'j\<close> is \<^verbatim>\<open>JsonWebKey\<close>. A \<^verbatim>\<open>crypto.subtle\<close> call
  that rejects gives \<open>None\<close>. \<open>subtle_encrypt\<close> and \<open>subtle_decrypt\<close> are AES-GCM with
  the key, the IV and the data; \<open>subtle_deriveKey\<close> is PBKDF2 (HMAC-SHA-256, 100000
  iterations) of the password and the salt bytes.
\<close>

record ('k, 'j) browser =
  TextEncoder_encode :: "string \<Rightarrow> byte list"
  TextDecoder_decode :: "byte list \<Rightarrow> string"
  subtle_encrypt :: "'k \<Rightarrow> byte list \<Rightarrow> byte list \<Rightarrow> byte list option"
  subtle_decrypt :: "'k \<Rightarrow> byte list \<Rightarrow> byte list \<Rightarrow> byte list option"
  subtle_exportKey :: "'k \<Rightarrow> 'j option"
  subtle_importKey :: "'j \<Rightarrow> 'k option"
  subtle_deriveKey :: "string \<Rightarrow> byte list \<Rightarrow> 'k"

subsection \<open>Encryption engine: \<^verbatim>\<open>encryptData\<close> and \<^verbatim>\<open>decryptData\<close>\<close>

text \<open>
  \<open>random12\<close> is what \<^verbatim>\<open>crypto.getRandomValues(new Uint8Array(12))\<close> returns in this
  call. \<^verbatim>\<open>encryptData\<close> has no handler: a rejected encryption is its error.
\<close>

definition encryptData ::
  "('k, 'j) browser \<Rightarrow> 'o json \<Rightarrow> byte list \<Rightarrow> 'o \<Rightarrow> 'k \<Rightarrow> error + encryptedPayload" where
  "encryptData env js random12 data key =
     (let encodedData = TextEncoder_encode env (stringify js data);
          iv_buf = random12
      in case subtle_encrypt env key iv_buf encodedData of
           None \<Rightarrow> Inl OperationError
         | Some encryptedContent \<Rightarrow>
             Inr \<lparr>iv = bufferToBase64 iv_buf, ciphertext = bufferToBase64 encryptedContent\<rparr>)"

definition DecryptionError :: error where
  "DecryptionError = Error ''Decryption failed. Invalid password or corrupted data.''"

text \<open>
  The two \<^verbatim>\<open>base64ToBuffer\<close> calls stand before the \<^verbatim>\<open>try\<close>: their exception leaves
  \<^verbatim>\<open>decryptData\<close> as it is. Inside the \<^verbatim>\<open>try\<close>, a rejected decryption and a
  \<^verbatim>\<open>JSON.parse\<close> that throws both become \<open>DecryptionError\<close>.
\<close>

definition decryptData ::
  "('k, 'j) browser \<Rightarrow> 'o json \<Rightarrow> string \<Rightarrow> string \<Rightarrow> 'k \<Rightarrow> error + 'o" where
  "decryptData env js ivBase64 ciphertextBase64 key =
     (case base64ToBuffer ivBase64 of
        Inl e \<Rightarrow> Inl e
      | Inr iv_buf \<Rightarrow>
          (case base64ToBuffer ciphertextBase64 of
             Inl e \<Rightarrow> Inl e
           | Inr ciphertext_buf \<Rightarrow>
               (case subtle_decrypt env key iv_buf ciphertext_buf of
                  None \<Rightarrow> Inl DecryptionError
                | Some decryptedContent \<Rightarrow>
                    (case parse js (TextDecoder_decode env decryptedContent) of
                       None \<Rightarrow> Inl DecryptionError
                     | Some v \<Rightarrow> Inr v))))"

text \<open>
  What the claims about the engine take from the browser. \<open>aes_gcm_key\<close>: the key is one
  AES-GCM works with, so that decryption under it opens what encryption under it sealed.
  \<open>json_serializable\<close>: the object survives \<^verbatim>\<open>JSON.stringify\<close>, the UTF-8 encoder and
  decoder and \<^verbatim>\<open>JSON.parse\<close>. \<open>authenticates\<close>: the tag check of AES-GCM rejects,
  under one key, whatever was sealed under another.
\<close>

definition aes_gcm_key :: "('k, 'j) browser \<Rightarrow> 'k \<Rightarrow> bool" where
  "aes_gcm_key env k =
     (\<forall>n p c. subtle_encrypt env k n p = Some c \<longrightarrow> subtle_decrypt env k n c = Some p)"

definition json_serializable :: "('k, 'j) browser \<Rightarrow> 'o json \<Rightarrow> 'o \<Rightarrow> bool" where
  "json_serializable env js v =
     (parse js (TextDecoder_decode env (TextEncoder_encode env (stringify js v))) = Some v)"

definition authenticates :: "('k, 'j) browser \<Rightarrow> bool" where
  "authenticates env =
     (\<forall>k1 k2 n p c. k1 \<noteq> k2 \<longrightarrow> subtle_encrypt env k1 n p = Some c \<longrightarrow>
        subtle_decrypt env k2 n c = None)"

subsection \<open>Numbers as strings: \<^verbatim>\<open>Number.prototype.toString\<close> and \<^verbatim>\<open>parseInt\<close>\<close>

text \<open>
  Timestamps are integers (\<^verbatim>\<open>Date.now()\<close> plus a constant), far below \<open>2^53\<close>, so the
  numbers of the session controller are \<open>int\<close>. \<open>toString\<close> writes the decimal digits,
  with a minus sign for a negative number.
\<close>

definition decimal :: string where
  "decimal = ''0123456789''"

definition digit_char :: "nat \<Rightarrow> char" where
  "digit_char d = decimal ! (d mod 10)"

function digits :: "nat \<Rightarrow> string" where
  "digits n = (if n < 10 then [digit_char n] else digits (n div 10) @ [digit_char (n mod 10)])"
  by pat_completeness auto
termination
  by (relation "measure (\<lambda>n. n)") auto

declare digits.simps [simp del]

definition toString :: "int \<Rightarrow> string" where
  "toString n = (if n < 0 then CHR ''-'' # digits (nat (- n)) else digits (nat n))"

text \<open>
  \<^verbatim>\<open>parseInt(s, 10)\<close>: leading white space is skipped, a sign is read, then the longest
  run of decimal digits; with no digit the result is \<^verbatim>\<open>NaN\<close>, here \<open>None\<close>.
  JavaScript rounds a digit string beyond \<open>2^53\<close> to the nearest double; the rounding
  is monotone and the clock is below \<open>2^53\<close>, so the comparison with the clock is the
  one made here.
\<close>

definition is_str_whitespace :: "char \<Rightarrow> bool" where
  "is_str_whitespace c = (of_char c \<in> {9, 10, 11, 12, 13, 32, 160 :: nat})"

definition is_digit :: "char \<Rightarrow> bool" where
  "is_digit c = (index_of c decimal \<noteq> None)"

definition digit_value :: "char \<Rightarrow> nat" where
  "digit_value c = (case index_of c decimal of Some d \<Rightarrow> d | None \<Rightarrow> 0)"

definition parseInt :: "string \<Rightarrow> int option" where
  "parseInt s =
     (let S = dropWhile is_str_whitespace s;
          sign = (case S of c # _ \<Rightarrow> if c = CHR ''-'' then - 1 else 1 | [] \<Rightarrow> (1 :: int));
          S = (case S of c # r \<Rightarrow> if c = CHR ''-'' \<or> c = CHR ''+'' then r else S | [] \<Rightarrow> S);
          Z = takeWhile is_digit S
      in if Z = [] then None
         else Some (sign * int (foldl (\<lambda>a c. 10 * a + digit_value c) 0 Z)))"

subsection \<open>Session controller: state and constants (\<^verbatim>\<open>authService.ts\<close>)\<close>

record userProfile =
  user_id :: string
  username :: string
  salt :: string

text \<open>
  The module's two variables and the browser's \<^verbatim>\<open>localStorage\<close>; \<open>upserts\<close> lists the
  rows the sync coordinator has sent to the remote table. \<open>pending\<close> lists the calls of
  \<^verbatim>\<open>persistSession\<close> that were started without \<^verbatim>\<open>await\<close> and have not yet run their
  writes, oldest first.

  \<^verbatim>\<open>setItem\<close> is a map update and \<^verbatim>\<open>removeItem\<close> a deletion. A \<^verbatim>\<open>setItem\<close> that throws
  (the storage quota) is an input of the functions in which the \<^verbatim>\<open>catch\<close> around it
  changes what is returned: \<^verbatim>\<open>restoreSession\<close>, \<^verbatim>\<open>getUserDataRaw\<close> and
  \<^verbatim>\<open>importWalletJSON\<close>. Where the \<^verbatim>\<open>catch\<close> around it only logs (\<^verbatim>\<open>persistSession\<close>,
  \<^verbatim>\<open>saveUserData\<close>) and where there is none (\<^verbatim>\<open>enableBiometrics\<close>, the guest branches
  of \<^verbatim>\<open>saveCards\<close> and \<^verbatim>\<open>saveSettings\<close>) the write is taken to succeed.
\<close>

record 'k app_state =
  localStorage :: "string \<rightharpoonup> string"
  currentSessionKey :: "'k option"
  currentUser :: "userProfile option"
  upserts :: "(string \<times> encryptedPayload) list"
  pending :: "('k \<times> userProfile) list"

text \<open>What the session controller asks of \<^verbatim>\<open>JSON\<close>, at the two types it stores.\<close>

record 'j session_json =
  JSON_jwk :: "'j json"
  JSON_user :: "userProfile json"

text \<open>
  \<^verbatim>\<open>JSON.parse\<close> does not throw on the text \<^verbatim>\<open>null\<close> (with JSON white space around
  it): it returns \<^verbatim>\<open>null\<close>, which is no value of the TypeScript type the sources cast
  it to. \<open>parses_null\<close> holds of exactly these texts.
\<close>

definition json_whitespace :: "char \<Rightarrow> bool" where
  "json_whitespace c = (c = CHR 0x09 \<or> c = CHR 0x0A \<or> c = CHR 0x0D \<or> c = CHR '' '')"

definition parses_null :: "string \<Rightarrow> bool" where
  "parses_null t =
     (rev (dropWhile json_whitespace (rev (dropWhile json_whitespace t))) = ''null'')"

text \<open>
  \<^verbatim>\<open>JSON.parse(userStr)\<close>: \<open>None\<close> where it throws, \<open>Some None\<close> where it returns
  \<^verbatim>\<open>null\<close>, \<open>Some (Some u)\<close> otherwise: the sources do not validate what was parsed,
  and any other value is read at the type \<^verbatim>\<open>UserProfile\<close> they give it. The parsed JWK
  goes to the key import and nowhere else, so a \<^verbatim>\<open>null\<close> there is one of the values
  of \<open>'j\<close> that the import rejects.
\<close>

definition parse_user :: "'j session_json \<Rightarrow> string \<Rightarrow> userProfile option option" where
  "parse_user js userStr =
     (if parses_null userStr then Some None
      else map_option Some (parse (JSON_user js) userStr))"

definition SESSION_KEY_STORAGE :: string where
  "SESSION_KEY_STORAGE = ''creditzen_session_key''"

definition SESSION_USER_STORAGE :: string where
  "SESSION_USER_STORAGE = ''creditzen_session_user''"

definition SESSION_EXPIRY_STORAGE :: string where
  "SESSION_EXPIRY_STORAGE = ''creditzen_session_expiry''"

definition SESSION_BIOMETRIC_ENABLED :: string where
  "SESSION_BIOMETRIC_ENABLED = ''creditzen_biometric_enabled''"

definition SESSION_TIMEOUT_MS :: int where
  "SESSION_TIMEOUT_MS = 20 * 60 * 1000"

definition BIOMETRIC_TIMEOUT_MS :: int where
  "BIOMETRIC_TIMEOUT_MS = 7 * 24 * 60 * 60 * 1000"

definition getItem :: "'k app_state \<Rightarrow> string \<Rightarrow> string option" where
  "getItem st key = localStorage st key"

definition setItem :: "string \<Rightarrow> string \<Rightarrow> 'k app_state \<Rightarrow> 'k app_state" where
  "setItem key v st = st\<lparr>localStorage := (localStorage st)(key \<mapsto> v)\<rparr>"

definition removeItem :: "string \<Rightarrow> 'k app_state \<Rightarrow> 'k app_state" where
  "removeItem key st = st\<lparr>localStorage := (localStorage st)(key := None)\<rparr>"

text \<open>
  A missing entry and the empty string are both falsy in \<^verbatim>\<open>if (!expiryStr)\<close>: \<open>truthy\<close>
  gives the string of an entry that is neither.
\<close>

definition truthy :: "string option \<Rightarrow> string option" where
  "truthy v = (case v of None \<Rightarrow> None | Some s \<Rightarrow> if s = [] then None else Some s)"

definition isBiometricEnabled :: "'k app_state \<Rightarrow> bool" where
  "isBiometricEnabled st = (getItem st SESSION_BIOMETRIC_ENABLED = Some ''true'')"

text \<open>
  \<^verbatim>\<open>persistSession\<close>: \<open>now\<close> is the \<^verbatim>\<open>Date.now()\<close> of the call. The \<^verbatim>\<open>catch\<close> only
  logs, so a key that cannot be exported leaves the storage as it was.
\<close>

definition persistSession ::
  "('k, 'j) browser \<Rightarrow> 'j session_json \<Rightarrow> int \<Rightarrow> 'k \<Rightarrow> userProfile \<Rightarrow> 'k app_state
     \<Rightarrow> 'k app_state" where
  "persistSession env js now key user st =
     (case subtle_exportKey env key of
        None \<Rightarrow> st
      | Some jwk \<Rightarrow>
          (let isBio = isBiometricEnabled st;
               timeout = (if isBio then BIOMETRIC_TIMEOUT_MS else SESSION_TIMEOUT_MS)
           in setItem SESSION_EXPIRY_STORAGE (toString (now + timeout))
                (setItem SESSION_USER_STORAGE (stringify (JSON_user js) user)
                  (setItem SESSION_KEY_STORAGE (stringify (JSON_jwk js) jwk) st))))"

definition clearSession :: "'k app_state \<Rightarrow> 'k app_state" where
  "clearSession st =
     removeItem SESSION_EXPIRY_STORAGE
       (removeItem SESSION_USER_STORAGE (removeItem SESSION_KEY_STORAGE st))"

text \<open>
  \<^verbatim>\<open>restoreSession\<close> reads the clock twice: \<open>now1\<close> at the expiry check, \<open>now2\<close> at the
  refresh. \<^verbatim>\<open>Date.now() > expiry\<close> is false for \<^verbatim>\<open>NaN\<close>. The result pairs the returned
  boolean with the state after the call. The \<^verbatim>\<open>catch\<close> covers \<^verbatim>\<open>JSON.parse\<close> of the two
  entries, the key import and the write of the refreshed expiry: \<open>refresh_throws\<close> says
  that this \<^verbatim>\<open>setItem\<close> throws. The two variables are assigned before that write, and
  the parsed profile is assigned as it is, \<^verbatim>\<open>null\<close> included.
\<close>

definition restoreSession ::
  "('k, 'j) browser \<Rightarrow> 'j session_json \<Rightarrow> int \<Rightarrow> int \<Rightarrow> bool \<Rightarrow> bool \<Rightarrow> 'k app_state
     \<Rightarrow> bool \<times> 'k app_state" where
  "restoreSession env js now1 now2 refresh_throws skipBiometricCheck st =
     (case truthy (getItem st SESSION_EXPIRY_STORAGE) of
        None \<Rightarrow> (False, st)
      | Some expiryStr \<Rightarrow>
          (let expiry = parseInt expiryStr in
           if (case expiry of None \<Rightarrow> False | Some e \<Rightarrow> now1 > e)
           then (False, clearSession st)
           else if isBiometricEnabled st \<and> \<not> skipBiometricCheck then (False, st)
           else
             (case truthy (getItem st SESSION_KEY_STORAGE) of
                None \<Rightarrow> (False, st)
              | Some jwkStr \<Rightarrow>
                  (case truthy (getItem st SESSION_USER_STORAGE) of
                     None \<Rightarrow> (False, st)
                   | Some userStr \<Rightarrow>
                       (case parse (JSON_jwk js) jwkStr of
                          None \<Rightarrow> (False, clearSession st)
                        | Some jwk \<Rightarrow>
                            (case subtle_importKey env jwk of
                               None \<Rightarrow> (False, clearSession st)
                             | Some key \<Rightarrow>
                                 (case parse_user js userStr of
                                    None \<Rightarrow> (False, clearSession st)
                                  | Some user \<Rightarrow>
                                      (let st1 = st\<lparr>currentSessionKey := Some key,
                                                      currentUser := user\<rparr>;
                                           isBio = isBiometricEnabled st1;
                                           timeout = (if isBio then BIOMETRIC_TIMEOUT_MS
                                                      else SESSION_TIMEOUT_MS)
                                       in if refresh_throws then (False, clearSession st1)
                                          else (True,
                                                setItem SESSION_EXPIRY_STORAGE
                                                  (toString (now2 + timeout)) st1)))))))))"

text \<open>
  The repository holds an earlier copy of \<^verbatim>\<open>authService.ts\<close> with no biometric
  preference: its \<^verbatim>\<open>persistSession\<close> and \<^verbatim>\<open>restoreSession\<close> always use the
  twenty minutes.
\<close>

definition persistSession_0 ::
  "('k, 'j) browser \<Rightarrow> 'j session_json \<Rightarrow> int \<Rightarrow> 'k \<Rightarrow> userProfile \<Rightarrow> 'k app_state
     \<Rightarrow> 'k app_state" where
  "persistSession_0 env js now key user st =
     (case subtle_exportKey env key of
        None \<Rightarrow> st
      | Some jwk \<Rightarrow>
          setItem SESSION_EXPIRY_STORAGE (toString (now + SESSION_TIMEOUT_MS))
            (setItem SESSION_USER_STORAGE (stringify (JSON_user js) user)
              (setItem SESSION_KEY_STORAGE (stringify (JSON_jwk js) jwk) st)))"

definition restoreSession_0 ::
  "('k, 'j) browser \<Rightarrow> 'j session_json \<Rightarrow> int \<Rightarrow> int \<Rightarrow> bool \<Rightarrow> 'k app_state
     \<Rightarrow> bool \<times> 'k app_state" where
  "restoreSession_0 env js now1 now2 refresh_throws st =
     (case truthy (getItem st SESSION_EXPIRY_STORAGE) of
        None \<Rightarrow> (False, st)
      | Some expiryStr \<Rightarrow>
          (let expiry = parseInt expiryStr in
           if (case expiry of None \<Rightarrow> False | Some e \<Rightarrow> now1 > e)
           then (False, clearSession st)
           else
             (case truthy (getItem st SESSION_KEY_STORAGE) of
                None \<Rightarrow> (False, st)
              | Some jwkStr \<Rightarrow>
                  (case truthy (getItem st SESSION_USER_STORAGE) of
                     None \<Rightarrow> (False, st)
                   | Some userStr \<Rightarrow>
                       (case parse (JSON_jwk js) jwkStr of
                          None \<Rightarrow> (False, clearSession st)
                        | Some jwk \<Rightarrow>
                            (case subtle_importKey env jwk of
                               None \<Rightarrow> (False, clearSession st)
                             | Some key \<Rightarrow>
                                 (case parse_user js userStr of
                                    None \<Rightarrow> (False, clearSession st)
                                  | Some user \<Rightarrow>
                                      (let st1 = st\<lparr>currentSessionKey := Some key,
                                                      currentUser := user\<rparr>
                                       in if refresh_throws then (False, clearSession st1)
                                          else (True,
                                                setItem SESSION_EXPIRY_STORAGE
                                                  (toString (now2 + SESSION_TIMEOUT_MS))
                                                  st1)))))))))"

subsection \<open>Key manager: \<^verbatim>\<open>generateSalt\<close> and \<^verbatim>\<open>deriveKey\<close>\<close>

text \<open>\<open>random16\<close> is what \<^verbatim>\<open>crypto.getRandomValues(new Uint8Array(16))\<close> returns.\<close>

definition generateSalt :: "byte list \<Rightarrow> string" where
  "generateSalt random16 = bufferToBase64 random16"

definition deriveKey :: "('k, 'j) browser \<Rightarrow> string \<Rightarrow> string \<Rightarrow> error + 'k" where
  "deriveKey env password saltBase64 =
     (case base64ToBuffer saltBase64 of
        Inl e \<Rightarrow> Inl e
      | Inr salt_buf \<Rightarrow> Inr (subtle_deriveKey env password salt_buf))"

subsection \<open>Session controller: login, logout and the biometric preference\<close>

text \<open>
  What the authentication client answers to \<^verbatim>\<open>signInWithPassword\<close>: it throws (message),
  or returns \<^verbatim>\<open>{data, error}\<close> with the error's message and \<^verbatim>\<open>data.user\<close>, of which
  the sources read the id and \<^verbatim>\<open>user_metadata?.salt\<close>.
\<close>

record auth_user =
  auth_id :: string
  metadata_salt :: "string option"

datatype signIn_outcome =
    SignInThrows string
  | SignInReturns "string option" "auth_user option"

record login_io =
  signIn :: signIn_outcome
  random16 :: "byte list"
  updateUser_throws :: "string option"
  login_now :: int

text \<open>The \<^verbatim>\<open>catch\<close> of \<^verbatim>\<open>loginUser\<close>: one message is replaced, every other error rethrown.\<close>

definition login_catch :: "error \<Rightarrow> error" where
  "login_catch e =
     (case e of
        Error m \<Rightarrow>
          if m = ''Failed to fetch''
          then Error ''Network error. Please check your internet connection.'' else e
      | _ \<Rightarrow> e)"

definition loginUser ::
  "('k, 'j) browser \<Rightarrow> 'j session_json \<Rightarrow> login_io \<Rightarrow> string \<Rightarrow> string \<Rightarrow> 'k app_state
     \<Rightarrow> (error + userProfile) \<times> 'k app_state" where
  "loginUser env js io email password st =
     (case signIn io of
        SignInThrows m \<Rightarrow> (Inl (login_catch (Error m)), st)
      | SignInReturns (Some m) _ \<Rightarrow> (Inl (login_catch (Error m)), st)
      | SignInReturns None None \<Rightarrow> (Inl (login_catch (Error ''Login failed'')), st)
      | SignInReturns None (Some u) \<Rightarrow>
          (case (case truthy (metadata_salt u) of
                   Some s \<Rightarrow> Inr s
                 | None \<Rightarrow>
                     (case updateUser_throws io of
                        Some m \<Rightarrow> Inl (Error m)
                      | None \<Rightarrow> Inr (generateSalt (random16 io)))) of
             Inl e \<Rightarrow> (Inl (login_catch e), st)
           | Inr salt_str \<Rightarrow>
               (case deriveKey env password salt_str of
                  Inl e \<Rightarrow> (Inl (login_catch e), st)
                | Inr key \<Rightarrow>
                    (let user = \<lparr>user_id = auth_id u, username = email, salt = salt_str\<rparr>;
                         st1 = st\<lparr>currentSessionKey := Some key, currentUser := Some user\<rparr>
                     in (Inr user, persistSession env js (login_now io) key user st1)))))"

text \<open>\<^verbatim>\<open>logoutUser\<close>: if \<^verbatim>\<open>signOut\<close> throws, nothing after it runs.\<close>

definition logoutUser :: "string option \<Rightarrow> 'k app_state \<Rightarrow> (error + unit) \<times> 'k app_state" where
  "logoutUser signOut_throws st =
     (case signOut_throws of
        Some m \<Rightarrow> (Inl (Error m), st)
      | None \<Rightarrow> (Inr (), clearSession (st\<lparr>currentSessionKey := None, currentUser := None\<rparr>)))"

record enable_io =
  biometricAvailable :: bool
  create_throws :: "string option"
  enable_now :: int

definition enableBiometrics ::
  "('k, 'j) browser \<Rightarrow> 'j session_json \<Rightarrow> enable_io \<Rightarrow> 'k app_state
     \<Rightarrow> (error + unit) \<times> 'k app_state" where
  "enableBiometrics env js io st =
     (if \<not> biometricAvailable io then (Inl (Error ''Biometrics not supported''), st)
      else
        (case create_throws io of
           Some m \<Rightarrow> (Inl (Error m), st)
         | None \<Rightarrow>
             (let st1 = setItem SESSION_BIOMETRIC_ENABLED ''true'' st in
              case (currentSessionKey st1, currentUser st1) of
                (Some key, Some user) \<Rightarrow> (Inr (), persistSession env js (enable_now io) key user st1)
              | _ \<Rightarrow> (Inr (), st1))))"

text \<open>
  \<^verbatim>\<open>disableBiometrics\<close> is not \<^verbatim>\<open>async\<close>: it removes the flag, calls
  \<^verbatim>\<open>persistSession\<close> without \<^verbatim>\<open>await\<close> and returns. All of \<^verbatim>\<open>persistSession\<close> after
  its \<^verbatim>\<open>await exportKeyToJWK(key)\<close> runs later: at the return of \<^verbatim>\<open>disableBiometrics\<close>
  the call is pending and nothing of the record has been written.
\<close>

definition disableBiometrics :: "'k app_state \<Rightarrow> 'k app_state" where
  "disableBiometrics st =
     (let st1 = removeItem SESSION_BIOMETRIC_ENABLED st in
      case (currentSessionKey st1, currentUser st1) of
        (Some key, Some user) \<Rightarrow> st1\<lparr>pending := pending st1 @ [(key, user)]\<rparr>
      | _ \<Rightarrow> st1)"

text \<open>
  The oldest pending \<^verbatim>\<open>persistSession\<close> runs to its end: the flag and the clock are read
  then, at \<open>now\<close>, and the three entries written.
\<close>

definition persistCompletes ::
  "('k, 'j) browser \<Rightarrow> 'j session_json \<Rightarrow> int \<Rightarrow> 'k app_state \<Rightarrow> 'k app_state" where
  "persistCompletes env js now st =
     (case pending st of
        [] \<Rightarrow> st
      | (key, user) # rest \<Rightarrow> persistSession env js now key user (st\<lparr>pending := rest\<rparr>))"

subsection \<open>Sequences of session operations\<close>

text \<open>
  One constructor for each exported operation, with what the environment supplies to the
  call; \<open>PersistCompletes\<close> for the completion of a pending \<^verbatim>\<open>persistSession\<close>; and
  \<open>Reload\<close> for a fresh page load: the module's variables start as \<^verbatim>\<open>null\<close> again,
  what was pending is gone with the page, \<^verbatim>\<open>localStorage\<close> stays.
\<close>

datatype session_op =
    Login login_io string string
  | Restore int int bool bool
  | EnableBiometrics enable_io
  | DisableBiometrics
  | PersistCompletes int
  | Logout "string option"
  | Reload

definition step ::
  "('k, 'j) browser \<Rightarrow> 'j session_json \<Rightarrow> session_op \<Rightarrow> 'k app_state \<Rightarrow> 'k app_state" where
  "step env js op st =
     (case op of
        Login io email password \<Rightarrow> snd (loginUser env js io email password st)
      | Restore now1 now2 refresh_throws skip \<Rightarrow>
          snd (restoreSession env js now1 now2 refresh_throws skip st)
      | EnableBiometrics io \<Rightarrow> snd (enableBiometrics env js io st)
      | DisableBiometrics \<Rightarrow> disableBiometrics st
      | PersistCompletes now \<Rightarrow> persistCompletes env js now st
      | Logout signOut_throws \<Rightarrow> snd (logoutUser signOut_throws st)
      | Reload \<Rightarrow> st\<lparr>currentSessionKey := None, currentUser := None, pending := []\<rparr>)"

text \<open>The persisted expiry as a number, if one is stored.\<close>

definition persisted_expiry :: "'k app_state \<Rightarrow> int option" where
  "persisted_expiry st =
     (case getItem st SESSION_EXPIRY_STORAGE of None \<Rightarrow> None | Some s \<Rightarrow> parseInt s)"

definition decreases :: "'k app_state \<Rightarrow> 'k app_state \<Rightarrow> bool" where
  "decreases st st' =
     (case (persisted_expiry st, persisted_expiry st') of
        (Some e, Some e') \<Rightarrow> e' < e
      | _ \<Rightarrow> False)"

text \<open>
  The steps of an explicit logout and of an explicit disabling. The write that lowers
  the expiry at a disabling is the one \<^verbatim>\<open>disableBiometrics\<close> starts, so its completion
  is a step of the disabling.
\<close>

definition exempt :: "session_op \<Rightarrow> bool" where
  "exempt op =
     (case op of
        Logout _ \<Rightarrow> True
      | DisableBiometrics \<Rightarrow> True
      | PersistCompletes _ \<Rightarrow> True
      | _ \<Rightarrow> False)"

text \<open>
  \<open>never_decreases\<close>: along the run of the operations from \<open>st\<close>, no step other than a
  logout or a disabling lowers the persisted expiry.
\<close>

fun never_decreases ::
  "('k, 'j) browser \<Rightarrow> 'j session_json \<Rightarrow> 'k app_state \<Rightarrow> session_op list \<Rightarrow> bool" where
  "never_decreases env js st [] = True"
| "never_decreases env js st (op # ops) =
     ((exempt op \<or> \<not> decreases st (step env js op st))
      \<and> never_decreases env js (step env js op st) ops)"

text \<open>
  \<open>in_policy t st\<close>: a stored expiry is at most the clock reading \<open>t\<close> plus the timeout
  of the biometric preference now in force. Empty storage is in policy.
\<close>

definition timeout_of :: "'k app_state \<Rightarrow> int" where
  "timeout_of st = (if isBiometricEnabled st then BIOMETRIC_TIMEOUT_MS else SESSION_TIMEOUT_MS)"

definition in_policy :: "int \<Rightarrow> 'k app_state \<Rightarrow> bool" where
  "in_policy t st =
     (case persisted_expiry st of None \<Rightarrow> True | Some e \<Rightarrow> e \<le> t + timeout_of st)"

text \<open>The clock readings of an operation do not run backwards from \<open>t\<close>.\<close>

definition clock_ok :: "int \<Rightarrow> session_op \<Rightarrow> bool" where
  "clock_ok t op =
     (case op of
        Login io _ _ \<Rightarrow> t \<le> login_now io
      | Restore now1 now2 _ _ \<Rightarrow> t \<le> now1 \<and> now1 \<le> now2
      | EnableBiometrics io \<Rightarrow> t \<le> enable_now io
      | DisableBiometrics \<Rightarrow> True
      | PersistCompletes now \<Rightarrow> t \<le> now
      | Logout _ \<Rightarrow> True
      | Reload \<Rightarrow> True)"

definition clock_after :: "int \<Rightarrow> session_op \<Rightarrow> int" where
  "clock_after t op =
     (case op of
        Login io _ _ \<Rightarrow> login_now io
      | Restore now1 now2 _ _ \<Rightarrow> now2
      | EnableBiometrics io \<Rightarrow> enable_now io
      | DisableBiometrics \<Rightarrow> t
      | PersistCompletes now \<Rightarrow> now
      | Logout _ \<Rightarrow> t
      | Reload \<Rightarrow> t)"

text \<open>
  \<open>unlocked env st\<close>: a key and a user are in memory and the key can be exported, so that
  \<^verbatim>\<open>persistSession\<close> writes the record.
\<close>

definition unlocked :: "('k, 'j) browser \<Rightarrow> 'k app_state \<Rightarrow> bool" where
  "unlocked env st =
     (case (currentSessionKey st, currentUser st) of
        (Some key, Some user) \<Rightarrow> subtle_exportKey env key \<noteq> None
      | _ \<Rightarrow> False)"

text \<open>
  \<open>settled op st\<close>: a pending \<^verbatim>\<open>persistSession\<close> completes before anything else runs (a
  reload included), and \<^verbatim>\<open>disableBiometrics\<close> is called in an unlocked state.
\<close>

definition settled :: "('k, 'j) browser \<Rightarrow> session_op \<Rightarrow> 'k app_state \<Rightarrow> bool" where
  "settled env op st =
     (case op of
        PersistCompletes _ \<Rightarrow> pending st \<noteq> []
      | DisableBiometrics \<Rightarrow> pending st = [] \<and> unlocked env st
      | _ \<Rightarrow> pending st = [])"

text \<open>
  \<open>disciplined\<close>: along the run the clock does not run backwards and every operation
  finds the state settled for it.
\<close>

fun disciplined ::
  "('k, 'j) browser \<Rightarrow> 'j session_json \<Rightarrow> int \<Rightarrow> 'k app_state \<Rightarrow> session_op list \<Rightarrow> bool" where
  "disciplined env js t st [] = True"
| "disciplined env js t st (op # ops) =
     (clock_ok t op \<and> settled env op st
      \<and> disciplined env js (clock_after t op) (step env js op st) ops)"

subsection \<open>The user's data (\<^verbatim>\<open>types.ts\<close>, \<^verbatim>\<open>constants.ts\<close>)\<close>

text \<open>
  A \<^verbatim>\<open>number\<close> of the wallet is a rational here: no claim computes with one. Fields
  declared optional in TypeScript are options.
\<close>

type_synonym number = rat

record benefit =
  category :: string
  multiplier :: number
  benefit_notes :: "string option"
  benefit_expiryDate :: "string option"

datatype documentType = Policy | FeeSchedule | BenefitsGuide | Other

record cardDocument =
  doc_id :: string
  doc_name :: string
  uploadDate :: string
  summary :: string
  doc_type :: documentType

datatype cardType = Credit | Debit

record creditCard =
  card_id :: string
  card_type :: cardType
  issuer :: string
  card_name :: string
  lastFour :: string
  statementDay :: "number option"
  dueDay :: "number option"
  creditLimit :: "number option"
  paymentUrl :: string
  benefits :: "benefit list"
  temporaryBenefits :: "benefit list option"
  documents :: "cardDocument list option"
  card_notes :: "string option"
  currentBalance :: "number option"
  fullCardNumber :: "string option"
  cvv :: "string option"
  expiryDate :: "string option"
  cardHolderName :: "string option"

record notificationSettings =
  daysBeforeStatement :: number
  daysBeforeDue :: number

datatype aIProvider = Google | OpenAI | Anthropic | Custom

record aISettings =
  provider :: aIProvider
  modelId :: string
  apiKey :: "string option"
  baseUrl :: "string option"

text \<open>
  The document that is encrypted, cached for a guest, and read from a backup file. The
  sources guard every read of a field (\<^verbatim>\<open>decrypted.cards || []\<close>,
  \<^verbatim>\<open>data.settings || DEFAULT_NOTIFICATIONS\<close>, \<^verbatim>\<open>!data.cards\<close>), so each field may be
  absent; what the sources write has all three. A parsed \<^verbatim>\<open>null\<close> behaves as the
  document with no field: reading a field of it throws inside a \<^verbatim>\<open>try\<close> whose
  \<^verbatim>\<open>catch\<close> gives what the guard gives for an absent field, and spreading it
  (\<^verbatim>\<open>{...data, cards}\<close>) adds nothing.
\<close>

record userData =
  cards :: "creditCard list option"
  settings :: "notificationSettings option"
  aiSettings :: "aISettings option"

definition DEFAULT_NOTIFICATIONS :: notificationSettings where
  "DEFAULT_NOTIFICATIONS = \<lparr>daysBeforeStatement = 5, daysBeforeDue = 3\<rparr>"

definition DEFAULT_AI_SETTINGS :: aISettings where
  "DEFAULT_AI_SETTINGS =
     \<lparr>provider = Google, modelId = ''gemini-3-flash-preview'', apiKey = Some [],
      baseUrl = None\<rparr>"

subsection \<open>Sync coordinator (\<^verbatim>\<open>storageService.ts\<close>)\<close>

text \<open>
  What the storage service asks of \<^verbatim>\<open>JSON\<close> and of the date library: \<open>parseISO\<close>
  gives the time stamp of a date text, \<open>None\<close> for an invalid date.
\<close>

record storage_lib =
  JSON_payload :: "encryptedPayload json"
  JSON_userData :: "userData json"
  parseISO :: "string \<Rightarrow> int option"

definition GUEST_DATA_KEY :: string where
  "GUEST_DATA_KEY = ''creditzen_guest_data''"

definition user_data_key :: "string \<Rightarrow> string" where
  "user_data_key userId = ''creditzen_user_data_'' @ userId"

text \<open>
  The remote read: \<^verbatim>\<open>navigator.onLine\<close>, and what the \<^verbatim>\<open>select ... single()\<close>
  does: it throws, or returns \<^verbatim>\<open>{data, error}\<close> (\<open>True\<close> for an error that is set).
  \<open>cache_write_throws\<close> says that the \<^verbatim>\<open>setItem\<close> which refreshes the local cache
  throws.
\<close>

datatype select_outcome =
    SelectThrows
  | SelectReturns "encryptedPayload option" bool

record fetch_io =
  onLine :: bool
  select :: select_outcome
  cache_write_throws :: bool

text \<open>
  \<^verbatim>\<open>saveUserData\<close>: the local write first, then the upsert when online; its outcome is
  only logged. \<open>save_onLine\<close> is \<^verbatim>\<open>navigator.onLine\<close> at that moment.
\<close>

definition saveUserData ::
  "storage_lib \<Rightarrow> bool \<Rightarrow> string \<Rightarrow> encryptedPayload \<Rightarrow> 'k app_state \<Rightarrow> 'k app_state" where
  "saveUserData lib save_onLine userId data st =
     (let st1 = setItem (user_data_key userId) (stringify (JSON_payload lib) data) st
      in if save_onLine then st1\<lparr>upserts := upserts st1 @ [(userId, data)]\<rparr> else st1)"

text \<open>
  Step 2 of \<^verbatim>\<open>getUserDataRaw\<close>, the read of the local cache; \<^verbatim>\<open>JSON.parse\<close> stands
  outside every \<^verbatim>\<open>try\<close> there, and what it returns is returned as it is: \<^verbatim>\<open>null\<close>
  for the text \<^verbatim>\<open>null\<close>.
\<close>

definition readLocal :: "storage_lib \<Rightarrow> string \<Rightarrow> 'k app_state \<Rightarrow> error + encryptedPayload option" where
  "readLocal lib localKey st =
     (case truthy (getItem st localKey) of
        None \<Rightarrow> Inr None
      | Some local_text \<Rightarrow>
          if parses_null local_text then Inr None
          else
            (case parse (JSON_payload lib) local_text of
               None \<Rightarrow> Inl SyntaxError
             | Some p \<Rightarrow> Inr (Some p)))"

text \<open>
  \<^verbatim>\<open>getUserDataRaw\<close>: the \<^verbatim>\<open>catch\<close> of step 1 covers the remote read and the write of
  the cache; after either has thrown, step 2 runs on the storage as it was.
\<close>

definition getUserDataRaw ::
  "storage_lib \<Rightarrow> fetch_io \<Rightarrow> string \<Rightarrow> 'k app_state
     \<Rightarrow> (error + encryptedPayload option) \<times> 'k app_state" where
  "getUserDataRaw lib io userId st =
     (let localKey = user_data_key userId in
      if onLine io then
        (case select io of
           SelectThrows \<Rightarrow> (readLocal lib localKey st, st)
         | SelectReturns None _ \<Rightarrow> (readLocal lib localKey st, st)
         | SelectReturns (Some data) error_set \<Rightarrow>
             if \<not> error_set
             then
               if cache_write_throws io then (readLocal lib localKey st, st)
               else (Inr (Some data), setItem localKey (stringify (JSON_payload lib) data) st)
             else (readLocal lib localKey st, st))
      else (readLocal lib localKey st, st))"

text \<open>
  \<open>remote_failed\<close>: the remote read threw, returned no row, or returned an error.
\<close>

definition remote_failed :: "fetch_io \<Rightarrow> bool" where
  "remote_failed io =
     (case select io of
        SelectThrows \<Rightarrow> True
      | SelectReturns None _ \<Rightarrow> True
      | SelectReturns (Some _) error_set \<Rightarrow> error_set)"

definition getGuestData :: "storage_lib \<Rightarrow> 'k app_state \<Rightarrow> error + userData" where
  "getGuestData lib st =
     (case truthy (getItem st GUEST_DATA_KEY) of
        None \<Rightarrow>
          Inr \<lparr>cards = Some [], settings = Some DEFAULT_NOTIFICATIONS,
               aiSettings = Some DEFAULT_AI_SETTINGS\<rparr>
      | Some item \<Rightarrow>
          (case parse (JSON_userData lib) item of None \<Rightarrow> Inl SyntaxError | Some d \<Rightarrow> Inr d))"

definition saveGuestData :: "storage_lib \<Rightarrow> userData \<Rightarrow> 'k app_state \<Rightarrow> 'k app_state" where
  "saveGuestData lib data st = setItem GUEST_DATA_KEY (stringify (JSON_userData lib) data) st"

subsection \<open>Wallet operations (\<^verbatim>\<open>storageService.ts\<close>)\<close>

text \<open>\<^verbatim>\<open>isBefore(date, today)\<close>: false for an invalid date.\<close>

definition isBefore :: "int option \<Rightarrow> int \<Rightarrow> bool" where
  "isBefore date today = (case date of None \<Rightarrow> False | Some t \<Rightarrow> t < today)"

text \<open>
  \<^verbatim>\<open>cleanCards\<close>: \<open>today\<close> is \<^verbatim>\<open>startOfDay(new Date())\<close>. A card with no temporary
  benefit is returned as it is; of the others, the benefits that expired before today
  are dropped.
\<close>

definition validTempBenefit :: "storage_lib \<Rightarrow> int \<Rightarrow> benefit \<Rightarrow> bool" where
  "validTempBenefit lib today b =
     (case truthy (benefit_expiryDate b) of
        None \<Rightarrow> True
      | Some d \<Rightarrow> \<not> isBefore (parseISO lib d) today)"


text \<open>A card with the temporary benefits that expired before \<open>today\<close> dropped.\<close>

definition dropExpired :: "storage_lib \<Rightarrow> int \<Rightarrow> creditCard \<Rightarrow> creditCard" where
  "dropExpired lib today c =
     c\<lparr>temporaryBenefits :=
         map_option (filter (validTempBenefit lib today)) (temporaryBenefits c)\<rparr>"

text \<open>\<^verbatim>\<open>v || d\<close> for a value that is an object or absent.\<close>

definition or_else :: "'a option \<Rightarrow> 'a \<Rightarrow> 'a" where
  "or_else v d = (case v of None \<Rightarrow> d | Some x \<Rightarrow> x)"

text \<open>\<^verbatim>\<open>getCards\<close>: every failure inside is caught and gives the empty list.\<close>

record cards_io =
  cards_fetch :: fetch_io
  today :: int



text \<open>
  \<^verbatim>\<open>saveCards\<close>: the settings of the stored blob are read first; a blob that does not
  decrypt is ignored (\<^verbatim>\<open>catch (e) { /* ignore */ }\<close>) and the defaults stay.
  \<^verbatim>\<open>getUserDataRaw\<close> and \<^verbatim>\<open>encryptData\<close> are not in a \<^verbatim>\<open>try\<close>.
\<close>

record save_io =
  save_fetch :: fetch_io
  save_random12 :: "byte list"
  save_onLine :: bool


definition saveSettings ::
  "('k, 'j) browser \<Rightarrow> storage_lib \<Rightarrow> save_io \<Rightarrow> notificationSettings \<Rightarrow> aISettings
     \<Rightarrow> 'k app_state \<Rightarrow> (error + unit) \<times> 'k app_state" where
  "saveSettings env lib io notifications ai st =
     (case currentUser st of
        None \<Rightarrow>
          (case getGuestData lib st of
             Inl e \<Rightarrow> (Inl e, st)
           | Inr data \<Rightarrow>
               (Inr (), saveGuestData lib
                          (data\<lparr>settings := Some notifications, aiSettings := Some ai\<rparr>) st))
      | Some user \<Rightarrow>
          (case currentSessionKey st of
             None \<Rightarrow> (Inr (), st)
           | Some key \<Rightarrow>
               (case getUserDataRaw lib (save_fetch io) (user_id user) st of
                  (Inl e, st1) \<Rightarrow> (Inl e, st1)
                | (Inr encryptedData, st1) \<Rightarrow>
                    (let currentCards =
                           (case encryptedData of
                              None \<Rightarrow> []
                            | Some ed \<Rightarrow>
                                (case decryptData env (JSON_userData lib) (iv ed)
                                        (ciphertext ed) key of
                                   Inl e \<Rightarrow> []
                                 | Inr decrypted \<Rightarrow> or_else (cards decrypted) []));
                         payload = \<lparr>cards = Some currentCards, settings = Some notifications,
                                    aiSettings = Some ai\<rparr>
                     in case encryptData env (JSON_userData lib) (save_random12 io) payload key of
                          Inl e \<Rightarrow> (Inl e, st1)
                        | Inr encrypted \<Rightarrow>
                            (Inr (), saveUserData lib (save_onLine io) (user_id user)
                                       encrypted st1)))))"






subsection \<open>Concrete inputs for the evaluations\<close>

text \<open>
  A small browser for the concrete evaluations below: keys are bytes, the cipher adds the
  key to every byte and puts the key in front as its tag, a JWK is the decimal text of
  the key.
\<close>

definition toy_browser :: "(byte, string) browser" where
  "toy_browser =
     \<lparr>TextEncoder_encode = map (\<lambda>c. of_nat (of_char c)),
      TextDecoder_decode = map (\<lambda>b. char_of (unat b)),
      subtle_encrypt = (\<lambda>k n p. Some (k # map (\<lambda>b. b + k) p)),
      subtle_decrypt = (\<lambda>k n c. case c of [] \<Rightarrow> None
                          | t # r \<Rightarrow> if t = k then Some (map (\<lambda>b. b - k) r) else None),
      subtle_exportKey = (\<lambda>k. Some (toString (uint k))),
      subtle_importKey = (\<lambda>j. case parseInt j of
                             None \<Rightarrow> None
                           | Some n \<Rightarrow> if 0 \<le> n \<and> n < 256 then Some (word_of_int n) else None),
      subtle_deriveKey = (\<lambda>pw salt. of_nat (length pw) + of_nat (length salt))\<rparr>"

definition json_text :: "string json" where
  "json_text = \<lparr>stringify = (\<lambda>s. s), parse = Some\<rparr>"

text \<open>
  A small \<^verbatim>\<open>JSON\<close> for the concrete evaluations: a JWK is written between angle brackets,
  a user profile as its id between braces.
\<close>

definition toy_json :: "string session_json" where
  "toy_json =
     \<lparr>JSON_jwk =
        \<lparr>stringify = (\<lambda>j. CHR ''<'' # j @ ''>''),
         parse = (\<lambda>t. case t of
                     c # r \<Rightarrow> if c = CHR ''<'' \<and> r \<noteq> [] \<and> last r = CHR ''>''
                              then Some (butlast r) else None
                   | [] \<Rightarrow> None)\<rparr>,
      JSON_user =
        \<lparr>stringify = (\<lambda>u. CHR ''{'' # user_id u @ ''}''),
         parse = (\<lambda>t. case t of
                     c # r \<Rightarrow> if c = CHR ''{''
                              then Some \<lparr>user_id = takeWhile (\<lambda>x. x \<noteq> CHR ''}'') r,
                                         username = [], salt = []\<rparr>
                              else None
                   | [] \<Rightarrow> None)\<rparr>\<rparr>"

definition empty_state :: "byte app_state" where
  "empty_state =
     \<lparr>localStorage = Map.empty, currentSessionKey = None, currentUser = None, upserts = [],
      pending = []\<rparr>"

text \<open>A persisted record of key 7 and user \<open>u1\<close> with the given expiry text, no key in memory.\<close>

definition cold_state :: "string \<Rightarrow> byte app_state" where
  "cold_state expiryStr =
     \<lparr>localStorage = [SESSION_KEY_STORAGE \<mapsto> ''<7>'', SESSION_USER_STORAGE \<mapsto> ''{u1}'',
                       SESSION_EXPIRY_STORAGE \<mapsto> expiryStr],
      currentSessionKey = None, currentUser = None, upserts = [], pending = []\<rparr>"

definition toy_user :: userProfile where
  "toy_user = \<lparr>user_id = ''u1'', username = ''a@x.com'', salt = ''AAAA''\<rparr>"

definition toy_login :: "int \<Rightarrow> login_io" where
  "toy_login now =
     \<lparr>signIn = SignInReturns None (Some \<lparr>auth_id = ''u1'', metadata_salt = Some ''AAAA''\<rparr>),
      random16 = [], updateUser_throws = None, login_now = now\<rparr>"

definition toy_enable :: "int \<Rightarrow> enable_io" where
  "toy_enable now = \<lparr>biometricAvailable = True, create_throws = None, enable_now = now\<rparr>"

text \<open>The record has expired at 1000 while key 7 and the user are still in memory.\<close>

definition unlocked_expired_state :: "byte app_state" where
  "unlocked_expired_state =
     (cold_state ''1000'')\<lparr>currentSessionKey := Some 7, currentUser := Some toy_user\<rparr>"

text \<open>Persisted records with a malformed JWK and with no JWK entry, expiring at 5000.\<close>

definition badjwk_state :: "byte app_state" where
  "badjwk_state = setItem SESSION_KEY_STORAGE ''garbage'' (cold_state ''5000'')"

definition nokey_state :: "byte app_state" where
  "nokey_state = removeItem SESSION_KEY_STORAGE (cold_state ''5000'')"

text \<open>
  A persisted record whose profile entry is the text \<^verbatim>\<open>null\<close>, expiring at 5000.
\<close>

definition nulluser_state :: "byte app_state" where
  "nulluser_state = setItem SESSION_USER_STORAGE ''null'' (cold_state ''5000'')"

text \<open>
  Three runs from the empty state. In \<open>good_run\<close> the preference is disabled after the
  session was restored, and the write of the disabling completes before the next restore.
  In \<open>bad_run\<close> it is disabled after a reload, with no key in memory. In \<open>race_run\<close>
  the page is reloaded before the write of the disabling has run.
\<close>

definition good_run :: "session_op list" where
  "good_run =
     [Login (toy_login 1000) ''a@x.com'' ''pw'', EnableBiometrics (toy_enable 2000),
      Reload, Restore 3000 3000 False True, DisableBiometrics, PersistCompletes 4000,
      Restore 5000 5000 False False]"

definition bad_run :: "session_op list" where
  "bad_run =
     [EnableBiometrics (toy_enable 0), Login (toy_login 1000) ''a@x.com'' ''pw'',
      Reload, DisableBiometrics, Restore 3000 3000 False False]"

definition race_run :: "session_op list" where
  "race_run =
     [Login (toy_login 1000) ''a@x.com'' ''pw'', EnableBiometrics (toy_enable 2000),
      DisableBiometrics, Reload, Restore 3000 3000 False False]"
text \<open>
  The storage library of the evaluations: a payload is written as its two texts around
  a colon, a document by its name in a table of the documents used, a date as its time
  stamp in decimal.
\<close>

definition old_card :: creditCard where
  "old_card =
     \<lparr>card_id = ''1'', card_type = Credit, issuer = ''Chase'', card_name = ''Old'',
      lastFour = ''1234'', statementDay = None, dueDay = None, creditLimit = None,
      paymentUrl = [], benefits = [],
      temporaryBenefits = Some [\<lparr>category = ''Gas'', multiplier = 5, benefit_notes = None,
                                 benefit_expiryDate = Some ''100''\<rparr>],
      documents = None, card_notes = None, currentBalance = None, fullCardNumber = None,
      cvv = None, expiryDate = None, cardHolderName = None\<rparr>"

definition dup_card :: creditCard where
  "dup_card = old_card\<lparr>card_name := ''Imported''\<rparr>"

definition new_card :: creditCard where
  "new_card = old_card\<lparr>card_id := ''2'', temporaryBenefits := None\<rparr>"

definition toy_settings :: notificationSettings where
  "toy_settings = \<lparr>daysBeforeStatement = 7, daysBeforeDue = 2\<rparr>"

text \<open>
  \<open>doc_A\<close> is the stored wallet and \<open>doc_I\<close> the backup of the import; \<open>doc_B\<close> is
  what the import in append mode writes. \<open>doc_O\<close> is a stored document with no AI
  settings, \<open>doc_N\<close> and \<open>doc_D\<close> are what \<^verbatim>\<open>saveCards\<close> writes over it when it can
  and when it cannot decrypt it.
\<close>

definition doc_A :: userData where
  "doc_A = \<lparr>cards = Some [old_card], settings = Some toy_settings,
             aiSettings = Some DEFAULT_AI_SETTINGS\<rparr>"

definition doc_I :: userData where
  "doc_I = \<lparr>cards = Some [dup_card, new_card], settings = Some DEFAULT_NOTIFICATIONS,
             aiSettings = None\<rparr>"

definition doc_B :: userData where
  "doc_B = \<lparr>cards = Some [old_card\<lparr>temporaryBenefits := Some []\<rparr>, new_card],
             settings = Some toy_settings, aiSettings = Some DEFAULT_AI_SETTINGS\<rparr>"

definition doc_O :: userData where
  "doc_O = \<lparr>cards = Some [], settings = Some toy_settings, aiSettings = None\<rparr>"

definition doc_N :: userData where
  "doc_N = \<lparr>cards = Some [new_card], settings = Some toy_settings,
             aiSettings = Some DEFAULT_AI_SETTINGS\<rparr>"

definition doc_D :: userData where
  "doc_D = \<lparr>cards = Some [new_card], settings = Some DEFAULT_NOTIFICATIONS,
             aiSettings = Some DEFAULT_AI_SETTINGS\<rparr>"

definition toy_docs :: "(string \<times> userData) list" where
  "toy_docs =
     [(''A'', doc_A), (''I'', doc_I), (''B'', doc_B), (''O'', doc_O), (''N'', doc_N),
      (''D'', doc_D)]"

definition toy_lib :: storage_lib where
  "toy_lib =
     \<lparr>JSON_payload =
        \<lparr>stringify = (\<lambda>p. iv p @ '':'' @ ciphertext p),
         parse = (\<lambda>t. if CHR '':'' \<in> set t
                     then Some \<lparr>iv = takeWhile (\<lambda>c. c \<noteq> CHR '':'') t,
                                ciphertext = tl (dropWhile (\<lambda>c. c \<noteq> CHR '':'') t)\<rparr>
                     else None)\<rparr>,
      JSON_userData =
        \<lparr>stringify = (\<lambda>d. case find (\<lambda>kv. snd kv = d) toy_docs of
                             Some kv \<Rightarrow> fst kv | None \<Rightarrow> ''?''),
         parse = map_of toy_docs\<rparr>,
      parseISO = parseInt\<rparr>"

definition offline :: fetch_io where
  "offline = \<lparr>onLine = False, select = SelectThrows, cache_write_throws = False\<rparr>"





text \<open>
  A signed-in user whose cached blob is \<open>doc_O\<close> encrypted under key 7, with the given
  key in memory.
\<close>

definition old_blob :: encryptedPayload where
  "old_blob = \<lparr>iv = ''AQIDBAUGBwgJCgsM'', ciphertext = ''B1Y=''\<rparr>"

definition auth_state :: "byte \<Rightarrow> byte app_state" where
  "auth_state key =
     \<lparr>localStorage = [user_data_key ''u1'' \<mapsto> ''AQIDBAUGBwgJCgsM:B1Y=''],
      currentSessionKey = Some key, currentUser = Some toy_user, upserts = [],
      pending = []\<rparr>"


text \<open>A signed-in user whose cache entry is the text \<^verbatim>\<open>null\<close>.\<close>

definition null_cache_state :: "byte app_state" where
  "null_cache_state = setItem (user_data_key ''u1'') ''null'' (auth_state 7)"

definition online :: "encryptedPayload \<Rightarrow> fetch_io" where
  "online d =
     \<lparr>onLine = True, select = SelectReturns (Some d) False, cache_write_throws = False\<rparr>"
section \<open>Theorems\<close>


subsection \<open>The Base64 codec round-trips\<close>

lemma length_b64chars: "length b64chars = 64"
  by (simp add: b64chars_def)

lemma distinct_b64chars: "distinct b64chars"
  by (simp add: b64chars_def)

lemma index_of_nth: "distinct xs \<Longrightarrow> i < length xs \<Longrightarrow> index_of (xs ! i) xs = Some i"
proof (induction xs arbitrary: i)
  case Nil
  then show ?case by simp
next
  case (Cons y ys)
  show ?case
  proof (cases i)
    case 0
    then show ?thesis by simp
  next
    case (Suc j)
    with Cons.prems have "ys ! j \<noteq> y" "j < length ys" "distinct ys" by auto
    with Cons.IH [of j] Suc show ?thesis by simp
  qed
qed

lemma b64index_b64char: "i < 64 \<Longrightarrow> b64index (b64char i) = Some i"
  unfolding b64index_def b64char_def
  using index_of_nth [OF distinct_b64chars, of i] by (simp add: length_b64chars)

lemma b64char_in: "b64char i \<in> set b64chars"
  unfolding b64char_def by (simp add: length_b64chars)

lemma b64chars_not_special: "c \<in> set b64chars \<Longrightarrow> c \<noteq> CHR ''='' \<and> \<not> is_ascii_whitespace c"
  by (auto simp add: b64chars_def is_ascii_whitespace_def)

lemma sextets_bound: "\<forall>a\<in>set xs. a < 256 \<Longrightarrow> \<forall>s\<in>set (sextets xs). s < 64"
  by (induction xs rule: sextets.induct) auto

lemma octets_sextets: "\<forall>a\<in>set xs. a < 256 \<Longrightarrow> octets (sextets xs) = xs"
  by (induction xs rule: sextets.induct) auto

lemma length_sextets: "length (sextets xs) = (4 * length xs + 2) div 3"
  by (induction xs rule: sextets.induct) auto

lemma all_some_b64: "\<forall>s\<in>set ss. s < 64 \<Longrightarrow> all_some (map b64index (map b64char ss)) = Some ss"
  by (induction ss) (auto simp add: b64index_b64char)

lemma padding_cases: "padding n = [] \<or> padding n = ''='' \<or> padding n = ''==''"
proof -
  have "(3 - n mod 3) mod 3 = 0 \<or> (3 - n mod 3) mod 3 = 1 \<or> (3 - n mod 3) mod 3 = 2"
    by arith
  then show ?thesis
    unfolding padding_def by (auto simp add: numeral_2_eq_2)
qed

lemma strip_padding_body:
  assumes "\<forall>c\<in>set xs. c \<noteq> CHR ''=''"
  shows "strip_padding xs = xs" "strip_padding (xs @ ''='') = xs"
    "strip_padding (xs @ ''=='') = xs"
proof -
  show "strip_padding xs = xs"
  proof (cases "rev xs")
    case Nil
    then show ?thesis by (simp add: strip_padding_def)
  next
    case (Cons x r)
    then have "x \<in> set xs" by (metis list.set_intros(1) set_rev)
    with assms have "x \<noteq> CHR ''=''" by blast
    with Cons show ?thesis by (cases r) (simp_all add: strip_padding_def)
  qed
  show "strip_padding (xs @ ''='') = xs"
  proof (cases "rev xs")
    case Nil
    then show ?thesis by (simp add: strip_padding_def)
  next
    case (Cons x r)
    then have "x \<in> set xs" by (metis list.set_intros(1) set_rev)
    with assms have "x \<noteq> CHR ''=''" by blast
    moreover from Cons have "xs = rev (x # r)" by (metis rev_rev_ident)
    ultimately show ?thesis using Cons by (simp add: strip_padding_def)
  qed
  show "strip_padding (xs @ ''=='') = xs"
    by (simp add: strip_padding_def)
qed

lemma length_btoa_mod4: "(length (sextets xs) + length (padding (length xs))) mod 4 = 0"
proof -
  let ?n = "length xs"
  have "?n mod 3 = 0 \<or> ?n mod 3 = 1 \<or> ?n mod 3 = 2" by arith
  then show ?thesis
    unfolding length_sextets padding_def by (elim disjE) (simp_all, presburger+)
qed

lemma length_sextets_mod4: "length (sextets xs) mod 4 \<noteq> 1"
  unfolding length_sextets by presburger

lemma atob_btoa: "atob (btoa s) = Inr s"
proof -
  let ?ss = "sextets (map of_char s)"
  let ?body = "map b64char ?ss"
  let ?pad = "padding (length s)"
  have small: "\<forall>a\<in>set (map of_char s :: nat list). a < 256" by simp
  have body: "\<forall>c\<in>set ?body. c \<noteq> CHR ''='' \<and> \<not> is_ascii_whitespace c"
    using b64chars_not_special b64char_in by auto
  have pad_ws: "\<forall>c\<in>set ?pad. \<not> is_ascii_whitespace c"
    by (simp add: padding_def is_ascii_whitespace_def)
  have f: "filter (\<lambda>c. \<not> is_ascii_whitespace c) (btoa s) = ?body @ ?pad"
    unfolding btoa_def using body pad_ws by (simp add: filter_id_conv)
  have len: "length (?body @ ?pad) mod 4 = 0"
    using length_btoa_mod4 [of "map of_char s"] by simp
  have strip: "strip_padding (?body @ ?pad) = ?body"
    using padding_cases [of "length s"] strip_padding_body [of ?body] body by auto
  have len1: "length ?body mod 4 \<noteq> 1"
    using length_sextets_mod4 [of "map of_char s"] by simp
  have idx: "all_some (map b64index ?body) = Some ?ss"
    using all_some_b64 [OF sextets_bound [OF small]] .
  have oct: "map char_of (octets ?ss) = s"
    using octets_sextets [OF small] by (simp add: comp_def map_idI)
  show ?thesis
    unfolding atob_def f using len strip len1 idx oct by (simp add: Let_def)
qed

lemma bytes_of_binary_string:
  "map (\<lambda>c. (of_nat (of_char c) :: byte)) (map (\<lambda>b. char_of (unat b)) bs) = bs"
proof -
  have byte: "(of_nat (unat a mod 256) :: byte) = a" for a :: byte
    using unsigned_less [of a, where ?'a = nat] by simp
  show ?thesis
    by (induction bs) (simp_all add: byte)
qed

lemma base64ToBuffer_bufferToBase64: "base64ToBuffer (bufferToBase64 b) = Inr b"
  using bytes_of_binary_string [of b]
  by (simp add: base64ToBuffer_def bufferToBase64_def atob_btoa)

text \<open>
  Claim C3: for every byte sequence \<open>b\<close>, the empty and the one-byte sequences included,
  decoding the Base64 text of \<open>b\<close> gives \<open>b\<close> back, with no decode error.
\<close>

theorem base64_roundtrip: "base64ToBuffer (bufferToBase64 b) = Inr b"
proof -
  let ?binary = "map (\<lambda>b. char_of (unat b)) b"
  have "atob (btoa ?binary) = Inr ?binary"
    by (rule atob_btoa)
  then have "base64ToBuffer (bufferToBase64 b)
               = Inr (map (\<lambda>c. of_nat (of_char c)) ?binary)"
    by (simp add: base64ToBuffer_def bufferToBase64_def)
  then show ?thesis
    by (simp only: bytes_of_binary_string)
qed

theorem base64_roundtrip_witness:
  "base64ToBuffer (bufferToBase64 []) = Inr [] \<and>
   bufferToBase64 [255] = ''/w=='' \<and> base64ToBuffer ''/w=='' = Inr [255 :: byte]"
proof -
  have enc: "bufferToBase64 [255] = ''/w==''"
    by code_simp
  from base64_roundtrip [of "[]"] base64_roundtrip [of "[255]"] enc show ?thesis
    by simp
qed

subsection \<open>Encryption engine\<close>

lemma encryptData_Inr:
  assumes "encryptData env js random12 v k = Inr p"
  obtains c where
    "subtle_encrypt env k random12 (TextEncoder_encode env (stringify js v)) = Some c"
    "p = \<lparr>iv = bufferToBase64 random12, ciphertext = bufferToBase64 c\<rparr>"
  using assms by (auto simp add: encryptData_def Let_def split: option.splits)

lemma toy_aes_gcm_key: "aes_gcm_key toy_browser k"
  by (simp add: aes_gcm_key_def toy_browser_def comp_def)

lemma toy_authenticates: "authenticates toy_browser"
  by (auto simp add: authenticates_def toy_browser_def)

lemma toy_json_serializable: "json_serializable toy_browser json_text s"
proof -
  have "char_of (unat (word_of_nat (of_char x :: nat) :: byte)) = x" for x :: char
    by (simp add: unat_of_nat)
  then show ?thesis
    by (simp add: json_serializable_def toy_browser_def json_text_def comp_def map_idI)
qed

lemma toy_encryptData:
  "encryptData toy_browser json_text [1, 2, 3, 4, 5, 6, 7, 8, 9, 10, 11, 12] ''ok'' 7
     = Inr \<lparr>iv = ''AQIDBAUGBwgJCgsM'', ciphertext = ''B3Zy''\<rparr>"
  by code_simp

text \<open>
  Claim C1: for every JSON-serializable object and every AES-GCM key, decrypting the
  payload that \<^verbatim>\<open>encryptData\<close> returned, with the same key, returns the object.
\<close>

theorem encrypt_decrypt_roundtrip:
  assumes "aes_gcm_key env k" and "json_serializable env js v"
    and "encryptData env js random12 v k = Inr p"
  shows "decryptData env js (iv p) (ciphertext p) k = Inr v"
proof -
  from assms(3) obtain c where
    c: "subtle_encrypt env k random12 (TextEncoder_encode env (stringify js v)) = Some c"
    and p: "p = \<lparr>iv = bufferToBase64 random12, ciphertext = bufferToBase64 c\<rparr>"
    by (rule encryptData_Inr)
  from assms(1) c
  have "subtle_decrypt env k random12 c = Some (TextEncoder_encode env (stringify js v))"
    unfolding aes_gcm_key_def by blast
  with assms(2) show ?thesis
    by (simp add: decryptData_def p base64ToBuffer_bufferToBase64 json_serializable_def)
qed

theorem encrypt_decrypt_roundtrip_witness:
  "decryptData toy_browser json_text ''AQIDBAUGBwgJCgsM'' ''B3Zy'' 7 = Inr ''ok''"
  using encrypt_decrypt_roundtrip [OF toy_aes_gcm_key toy_json_serializable toy_encryptData]
  by simp

text \<open>
  Claim C2: for distinct keys \<open>k1\<close> and \<open>k2\<close>, decrypting with \<open>k2\<close> the payload that
  \<^verbatim>\<open>encryptData\<close> returned under \<open>k1\<close> fails with the decryption error; no object is
  returned, and whatever the key, no other exception leaves \<^verbatim>\<open>decryptData\<close> on such a
  payload.
\<close>

theorem decrypt_wrong_key:
  assumes "encryptData env js random12 v k1 = Inr p"
  shows "(authenticates env \<and> k1 \<noteq> k2 \<longrightarrow>
            decryptData env js (iv p) (ciphertext p) k2
              = Inl (Error ''Decryption failed. Invalid password or corrupted data.''))
       \<and> (\<forall>k e. decryptData env js (iv p) (ciphertext p) k = Inl e \<longrightarrow>
            e = Error ''Decryption failed. Invalid password or corrupted data.'')"
proof (intro conjI impI allI)
  from assms obtain c where
    c: "subtle_encrypt env k1 random12 (TextEncoder_encode env (stringify js v)) = Some c"
    and p: "p = \<lparr>iv = bufferToBase64 random12, ciphertext = bufferToBase64 c\<rparr>"
    by (rule encryptData_Inr)
  {
    assume "authenticates env \<and> k1 \<noteq> k2"
    with c have "subtle_decrypt env k2 random12 c = None"
      unfolding authenticates_def by blast
    then show "decryptData env js (iv p) (ciphertext p) k2
                 = Inl (Error ''Decryption failed. Invalid password or corrupted data.'')"
      by (simp add: decryptData_def p base64ToBuffer_bufferToBase64 DecryptionError_def)
  next
    fix k e
    assume "decryptData env js (iv p) (ciphertext p) k = Inl e"
    then show "e = Error ''Decryption failed. Invalid password or corrupted data.''"
      by (auto simp add: decryptData_def p base64ToBuffer_bufferToBase64 DecryptionError_def
          split: option.splits)
  }
qed

theorem decrypt_wrong_key_witness:
  "decryptData toy_browser json_text ''AQIDBAUGBwgJCgsM'' ''B3Zy'' 8
     = Inl (Error ''Decryption failed. Invalid password or corrupted data.'')"
proof -
  have "authenticates toy_browser \<and> (7 :: byte) \<noteq> 8"
    by (simp add: toy_authenticates)
  with decrypt_wrong_key [OF toy_encryptData, of 8] show ?thesis
    by simp
qed

subsection \<open>Numbers as strings\<close>

lemma index_of_None: "index_of x xs = None \<longleftrightarrow> x \<notin> set xs"
  by (induction xs) auto

lemma index_of_digit_char: "d < 10 \<Longrightarrow> index_of (digit_char d) decimal = Some d"
  unfolding digit_char_def
  using index_of_nth [of decimal d] by (simp add: decimal_def)

lemma is_digit_digit_char: "d < 10 \<Longrightarrow> is_digit (digit_char d)"
  by (simp add: is_digit_def index_of_digit_char)

lemma digit_value_digit_char: "d < 10 \<Longrightarrow> digit_value (digit_char d) = d"
  by (simp add: digit_value_def index_of_digit_char)

lemma digits_all_digit: "\<forall>c\<in>set (digits n). is_digit c"
proof (induction n rule: digits.induct)
  case (1 n)
  show ?case
  proof (cases "n < 10")
    case True
    then show ?thesis by (subst digits.simps) (simp add: is_digit_digit_char)
  next
    case False
    with 1 show ?thesis
      by (subst digits.simps) (simp add: is_digit_digit_char)
  qed
qed

lemma digits_nonempty: "digits n \<noteq> []"
  by (subst digits.simps) simp

lemma digits_value: "foldl (\<lambda>a c. 10 * a + digit_value c) 0 (digits n) = n"
proof (induction n rule: digits.induct)
  case (1 n)
  show ?case
  proof (cases "n < 10")
    case True
    then show ?thesis by (subst digits.simps) (simp add: digit_value_digit_char)
  next
    case False
    with 1 show ?thesis
      by (subst digits.simps) (simp add: digit_value_digit_char)
  qed
qed

lemma is_digit_not_special:
  assumes "is_digit c"
  shows "\<not> is_str_whitespace c \<and> c \<noteq> CHR ''-'' \<and> c \<noteq> CHR ''+''"
proof -
  from assms have "c \<in> set decimal"
    by (simp add: is_digit_def index_of_None)
  then show ?thesis
    by (auto simp add: decimal_def is_str_whitespace_def)
qed

lemma parseInt_digits: "parseInt (digits n) = Some (int n)"
proof -
  obtain c r where cr: "digits n = c # r"
    using digits_nonempty [of n] by (cases "digits n") auto
  with digits_all_digit [of n] have "is_digit c" by simp
  then have c: "\<not> is_str_whitespace c" "c \<noteq> CHR ''-''" "c \<noteq> CHR ''+''"
    using is_digit_not_special by blast+
  have tw: "takeWhile is_digit (digits n) = digits n"
    using digits_all_digit [of n] by simp
  have dw: "dropWhile is_str_whitespace (digits n) = digits n"
    using cr c by simp
  have sign: "(case digits n of c # _ \<Rightarrow> if c = CHR ''-'' then - 1 else 1 | [] \<Rightarrow> (1 :: int)) = 1"
    using cr c by simp
  have rest: "(case digits n of c # r \<Rightarrow> if c = CHR ''-'' \<or> c = CHR ''+'' then r else digits n
                | [] \<Rightarrow> digits n) = digits n"
    using cr c by simp
  show ?thesis
    unfolding parseInt_def Let_def dw sign rest tw digits_value
    by (simp add: digits_nonempty)
qed

lemma parseInt_toString: "parseInt (toString n) = Some n"
proof (cases "n < 0")
  case False
  then show ?thesis by (simp add: toString_def parseInt_digits)
next
  case True
  let ?m = "nat (- n)"
  have tw: "takeWhile is_digit (digits ?m) = digits ?m"
    using digits_all_digit [of ?m] by simp
  have "\<not> is_str_whitespace (CHR ''-'')" by (simp add: is_str_whitespace_def)
  then show ?thesis
    using True digits_value [of ?m] digits_nonempty [of ?m]
    by (simp add: toString_def parseInt_def Let_def tw del: takeWhile_eq_all_conv)
qed

lemma toString_nonempty: "toString n \<noteq> []"
  by (simp add: toString_def digits_nonempty)

subsection \<open>Session controller\<close>

lemma storage_keys_distinct:
  "SESSION_KEY_STORAGE \<noteq> SESSION_USER_STORAGE" "SESSION_KEY_STORAGE \<noteq> SESSION_EXPIRY_STORAGE"
  "SESSION_KEY_STORAGE \<noteq> SESSION_BIOMETRIC_ENABLED" "SESSION_USER_STORAGE \<noteq> SESSION_EXPIRY_STORAGE"
  "SESSION_USER_STORAGE \<noteq> SESSION_BIOMETRIC_ENABLED"
  "SESSION_EXPIRY_STORAGE \<noteq> SESSION_BIOMETRIC_ENABLED"
  by (simp_all add: SESSION_KEY_STORAGE_def SESSION_USER_STORAGE_def SESSION_EXPIRY_STORAGE_def
      SESSION_BIOMETRIC_ENABLED_def)

lemmas storage_keys_distinct' = storage_keys_distinct storage_keys_distinct [symmetric]

lemma getItem_setItem: "getItem (setItem k v st) k' = (if k' = k then Some v else getItem st k')"
  by (simp add: getItem_def setItem_def)

lemma getItem_removeItem: "getItem (removeItem k st) k' = (if k' = k then None else getItem st k')"
  by (simp add: getItem_def removeItem_def)

lemma getItem_memory: "getItem (st\<lparr>currentSessionKey := a, currentUser := b\<rparr>) k = getItem st k"
  by (simp add: getItem_def)

lemma memory_setItem:
  "currentSessionKey (setItem k v st) = currentSessionKey st"
  "currentUser (setItem k v st) = currentUser st"
  by (simp_all add: setItem_def)

lemma memory_removeItem:
  "currentSessionKey (removeItem k st) = currentSessionKey st"
  "currentUser (removeItem k st) = currentUser st"
  by (simp_all add: removeItem_def)

lemma pending_storage:
  "pending (setItem k v st) = pending st" "pending (removeItem k st) = pending st"
  "pending (clearSession st) = pending st"
  by (simp_all add: setItem_def removeItem_def clearSession_def)

lemma getItem_pending: "getItem (st\<lparr>pending := p\<rparr>) k = getItem st k"
  by (simp add: getItem_def)

lemma getItem_clearSession:
  "getItem (clearSession st) k =
     (if k \<in> {SESSION_KEY_STORAGE, SESSION_USER_STORAGE, SESSION_EXPIRY_STORAGE} then None
      else getItem st k)"
  by (simp add: clearSession_def getItem_removeItem)

lemma memory_clearSession:
  "currentSessionKey (clearSession st) = currentSessionKey st"
  "currentUser (clearSession st) = currentUser st"
  by (simp_all add: clearSession_def memory_removeItem)

lemma parseInt_Nil: "parseInt [] = None"
  by (simp add: parseInt_def)

lemma truthy_Some: "truthy v = Some s \<longleftrightarrow> v = Some s \<and> s \<noteq> []"
  by (auto simp add: truthy_def split: option.splits)

lemma timeouts: "SESSION_TIMEOUT_MS = 1200000" "BIOMETRIC_TIMEOUT_MS = 604800000"
  by (simp_all add: SESSION_TIMEOUT_MS_def BIOMETRIC_TIMEOUT_MS_def)


lemma restoreSession_expired:
  assumes "persisted_expiry st = Some e" and "e < now1"
  shows "restoreSession env js now1 now2 refresh_throws skip st = (False, clearSession st)"
    and "restoreSession_0 env js now1 now2 refresh_throws st = (False, clearSession st)"
proof -
  from assms(1) obtain s where s: "getItem st SESSION_EXPIRY_STORAGE = Some s" "parseInt s = Some e"
    by (auto simp add: persisted_expiry_def split: option.splits)
  then have "s \<noteq> []" using parseInt_Nil by auto
  with s have t: "truthy (getItem st SESSION_EXPIRY_STORAGE) = Some s"
    by (simp add: truthy_Some)
  show "restoreSession env js now1 now2 refresh_throws skip st = (False, clearSession st)"
    using assms(2) by (simp add: restoreSession_def t s(2))
  show "restoreSession_0 env js now1 now2 refresh_throws st = (False, clearSession st)"
    using assms(2) by (simp add: restoreSession_0_def t s(2))
qed

text \<open>
  Claim C4, as amended: when the stored expiry timestamp is strictly in the past at the
  call, \<^verbatim>\<open>restoreSession\<close> (in both copies of the service) returns false and removes the
  key material, the user profile and the expiry timestamp from local storage; the key and
  the user in memory are left as they were, so none is in memory when none was before.
\<close>

theorem restoreSession_expired_clears:
  assumes "persisted_expiry st = Some e" and "e < now1"
  shows "restoreSession env js now1 now2 refresh_throws skip st = (False, clearSession st)
           \<and> restoreSession_0 env js now1 now2 refresh_throws st = (False, clearSession st)
           \<and> getItem (clearSession st) SESSION_KEY_STORAGE = None
           \<and> getItem (clearSession st) SESSION_USER_STORAGE = None
           \<and> getItem (clearSession st) SESSION_EXPIRY_STORAGE = None
           \<and> currentSessionKey (clearSession st) = currentSessionKey st
           \<and> currentUser (clearSession st) = currentUser st"
  by (simp add: restoreSession_expired [OF assms] getItem_clearSession memory_clearSession)

text \<open>
  Claim C5, as amended: once the expiry check and the biometric gate have let the call
  pass, a stored JWK that is not JSON, a key import that rejects or a stored user profile
  that is not JSON makes \<^verbatim>\<open>restoreSession\<close> return false and remove the whole persisted
  record (key, user and expiry); a missing or empty key or user entry makes it return
  false with the storage untouched; in each of these cases the key and the user in
  memory are as they were before the call. When the write of the refreshed expiry does
  not throw, these are the only ways in which the call returns false.
\<close>

theorem restoreSession_failure:
  assumes "truthy (getItem st SESSION_EXPIRY_STORAGE) = Some s"
    and "\<not> (case parseInt s of None \<Rightarrow> False | Some e \<Rightarrow> now1 > e)"
    and "\<not> (isBiometricEnabled st \<and> \<not> skip)"
  shows "(truthy (getItem st SESSION_KEY_STORAGE) = None \<or> truthy (getItem st SESSION_USER_STORAGE) = None
            \<longrightarrow> restoreSession env js now1 now2 refresh_throws skip st = (False, st))
       \<and> (\<forall>jwkStr userStr.
             truthy (getItem st SESSION_KEY_STORAGE) = Some jwkStr
             \<and> truthy (getItem st SESSION_USER_STORAGE) = Some userStr
             \<and> (parse (JSON_jwk js) jwkStr = None
                 \<or> (\<exists>jwk. parse (JSON_jwk js) jwkStr = Some jwk \<and> subtle_importKey env jwk = None)
                 \<or> (\<not> parses_null userStr \<and> parse (JSON_user js) userStr = None))
             \<longrightarrow> restoreSession env js now1 now2 refresh_throws skip st = (False, clearSession st))
       \<and> getItem (clearSession st) SESSION_KEY_STORAGE = None
       \<and> getItem (clearSession st) SESSION_USER_STORAGE = None
       \<and> getItem (clearSession st) SESSION_EXPIRY_STORAGE = None
       \<and> currentSessionKey (clearSession st) = currentSessionKey st
       \<and> currentUser (clearSession st) = currentUser st
       \<and> (\<not> refresh_throws \<and> \<not> fst (restoreSession env js now1 now2 refresh_throws skip st)
             \<longrightarrow> snd (restoreSession env js now1 now2 refresh_throws skip st) = st
               \<or> snd (restoreSession env js now1 now2 refresh_throws skip st) = clearSession st)"
  using assms
  by (auto simp add: restoreSession_def parse_user_def Let_def memory_clearSession
      getItem_clearSession split: option.splits)

text \<open>
  Two returns of \<^verbatim>\<open>restoreSession\<close> that the statement above leaves aside. A stored
  profile whose text is \<^verbatim>\<open>null\<close> is no failure: the call returns true with the key set
  and no user. And when the write of the refreshed expiry throws, the \<^verbatim>\<open>catch\<close> clears
  the record and returns false after the key and the user have been assigned.
\<close>

lemma restoreSession_null_profile:
  assumes "truthy (getItem st SESSION_EXPIRY_STORAGE) = Some s"
    and "\<not> (case parseInt s of None \<Rightarrow> False | Some e \<Rightarrow> now1 > e)"
    and "\<not> (isBiometricEnabled st \<and> \<not> skip)"
    and "truthy (getItem st SESSION_KEY_STORAGE) = Some jwkStr"
    and "truthy (getItem st SESSION_USER_STORAGE) = Some userStr"
    and "parse (JSON_jwk js) jwkStr = Some jwk" and "subtle_importKey env jwk = Some key"
    and "parses_null userStr"
  shows "fst (restoreSession env js now1 now2 False skip st)"
    and "currentSessionKey (snd (restoreSession env js now1 now2 False skip st)) = Some key"
    and "currentUser (snd (restoreSession env js now1 now2 False skip st)) = None"
  using assms
  by (auto simp add: restoreSession_def parse_user_def Let_def memory_setItem)

lemma restoreSession_refresh_throws:
  assumes "truthy (getItem st SESSION_EXPIRY_STORAGE) = Some s"
    and "\<not> (case parseInt s of None \<Rightarrow> False | Some e \<Rightarrow> now1 > e)"
    and "\<not> (isBiometricEnabled st \<and> \<not> skip)"
    and "truthy (getItem st SESSION_KEY_STORAGE) = Some jwkStr"
    and "truthy (getItem st SESSION_USER_STORAGE) = Some userStr"
    and "parse (JSON_jwk js) jwkStr = Some jwk" and "subtle_importKey env jwk = Some key"
    and "parse_user js userStr = Some user"
  shows "restoreSession env js now1 now2 True skip st
           = (False, clearSession (st\<lparr>currentSessionKey := Some key, currentUser := user\<rparr>))"
    and "currentSessionKey (snd (restoreSession env js now1 now2 True skip st)) = Some key"
    and "currentUser (snd (restoreSession env js now1 now2 True skip st)) = user"
  using assms
  by (auto simp add: restoreSession_def Let_def memory_clearSession)


lemma persistSession_exported:
  assumes "subtle_exportKey env key = Some jwk"
  shows "getItem (persistSession env js now key user st) SESSION_EXPIRY_STORAGE
           = Some (toString (now + (if isBiometricEnabled st then BIOMETRIC_TIMEOUT_MS
                                    else SESSION_TIMEOUT_MS)))"
    and "getItem (persistSession env js now key user st) SESSION_BIOMETRIC_ENABLED
           = getItem st SESSION_BIOMETRIC_ENABLED"
  using assms
  by (simp_all add: persistSession_def Let_def getItem_setItem storage_keys_distinct')

lemma persistSession_not_exported:
  "subtle_exportKey env key = None \<Longrightarrow> persistSession env js now key user st = st"
  by (simp add: persistSession_def)

lemma persistSession_0_expiry:
  assumes "subtle_exportKey env key = Some jwk"
  shows "getItem (persistSession_0 env js now key user st) SESSION_EXPIRY_STORAGE
           = Some (toString (now + 20 * 60 * 1000))"
  using assms
  by (simp add: persistSession_0_def getItem_setItem SESSION_TIMEOUT_MS_def)

lemma isBiometricEnabled_memory:
  "isBiometricEnabled (st\<lparr>currentSessionKey := a, currentUser := b\<rparr>) = isBiometricEnabled st"
  by (simp add: isBiometricEnabled_def getItem_def)

lemma loginUser_Inr:
  assumes "loginUser env js io email password st = (Inr user, st')"
  obtains key where
    "st' = persistSession env js (login_now io) key user
             (st\<lparr>currentSessionKey := Some key, currentUser := Some user\<rparr>)"
    "currentSessionKey st' = Some key" "currentUser st' = Some user"
proof -
  from assms obtain key where
    st': "st' = persistSession env js (login_now io) key user
             (st\<lparr>currentSessionKey := Some key, currentUser := Some user\<rparr>)"
    by (auto simp add: loginUser_def Let_def
        split: signIn_outcome.splits option.splits sum.splits)
  have "currentSessionKey st' = Some key \<and> currentUser st' = Some user"
    unfolding st' by (simp add: persistSession_def Let_def memory_setItem split: option.splits)
  with st' that show ?thesis by blast
qed

text \<open>
  Claim C6: when a login succeeds and its session record is persisted (the key was
  exported), the stored expiry timestamp is the time of the call plus 7 days if the
  biometric preference is enabled and plus 20 minutes otherwise.
\<close>

theorem login_expiry:
  assumes "loginUser env js io email password st = (Inr user, st')"
    and "currentSessionKey st' = Some key" and "subtle_exportKey env key = Some jwk"
  shows "getItem st' SESSION_EXPIRY_STORAGE
           = Some (toString (login_now io +
                (if isBiometricEnabled st then 7 * 24 * 60 * 60 * 1000 else 20 * 60 * 1000)))
       \<and> persisted_expiry st'
           = Some (login_now io +
                (if isBiometricEnabled st then 7 * 24 * 60 * 60 * 1000 else 20 * 60 * 1000))"
proof -
  from assms(1) obtain key' where
    st': "st' = persistSession env js (login_now io) key' user
             (st\<lparr>currentSessionKey := Some key', currentUser := Some user\<rparr>)"
    and "currentSessionKey st' = Some key'"
    by (rule loginUser_Inr)
  with assms(2) have "key' = key" by simp
  with st' assms(3) have
    "getItem st' SESSION_EXPIRY_STORAGE
       = Some (toString (login_now io + (if isBiometricEnabled st then BIOMETRIC_TIMEOUT_MS
                                         else SESSION_TIMEOUT_MS)))"
    by (simp add: persistSession_exported isBiometricEnabled_memory)
  then show ?thesis
    by (simp add: persisted_expiry_def parseInt_toString SESSION_TIMEOUT_MS_def
        BIOMETRIC_TIMEOUT_MS_def)
qed

lemma persisted_expiry_setItem_expiry:
  "persisted_expiry (setItem SESSION_EXPIRY_STORAGE (toString n) st) = Some n"
  by (simp add: persisted_expiry_def getItem_setItem parseInt_toString)

lemma persisted_expiry_clearSession: "persisted_expiry (clearSession st) = None"
  by (simp add: persisted_expiry_def getItem_clearSession)

lemma persisted_expiry_memory:
  "persisted_expiry (st\<lparr>currentSessionKey := a, currentUser := b\<rparr>) = persisted_expiry st"
  by (simp add: persisted_expiry_def getItem_def)

lemma persisted_expiry_other:
  "k \<noteq> SESSION_EXPIRY_STORAGE \<Longrightarrow> persisted_expiry (setItem k v st) = persisted_expiry st"
  "k \<noteq> SESSION_EXPIRY_STORAGE \<Longrightarrow> persisted_expiry (removeItem k st) = persisted_expiry st"
  by (simp_all add: persisted_expiry_def getItem_setItem getItem_removeItem)

lemma isBiometricEnabled_other:
  "k \<noteq> SESSION_BIOMETRIC_ENABLED \<Longrightarrow> isBiometricEnabled (setItem k v st) = isBiometricEnabled st"
  "k \<noteq> SESSION_BIOMETRIC_ENABLED \<Longrightarrow> isBiometricEnabled (removeItem k st) = isBiometricEnabled st"
  by (simp_all add: isBiometricEnabled_def getItem_setItem getItem_removeItem)

lemma isBiometricEnabled_clearSession: "isBiometricEnabled (clearSession st) = isBiometricEnabled st"
  by (simp add: isBiometricEnabled_def getItem_clearSession storage_keys_distinct')

lemma isBiometricEnabled_flag:
  "isBiometricEnabled (setItem SESSION_BIOMETRIC_ENABLED ''true'' st)"
  "\<not> isBiometricEnabled (removeItem SESSION_BIOMETRIC_ENABLED st)"
  by (simp_all add: isBiometricEnabled_def getItem_setItem getItem_removeItem)

lemma in_policy_alt: "in_policy t st \<longleftrightarrow> (\<forall>e. persisted_expiry st = Some e \<longrightarrow> e \<le> t + timeout_of st)"
  by (simp add: in_policy_def split: option.splits)

lemma decreases_alt:
  "decreases st st' \<longleftrightarrow> (\<exists>e e'. persisted_expiry st = Some e \<and> persisted_expiry st' = Some e' \<and> e' < e)"
  by (simp add: decreases_def split: option.splits)

text \<open>What persistSession does to the expiry and the flag.\<close>

lemma persistSession_cases:
  "(persistSession env js now key user st = st)
   \<or> (persisted_expiry (persistSession env js now key user st) = Some (now + timeout_of st))"
  by (cases "subtle_exportKey env key")
    (simp_all add: persistSession_def Let_def persisted_expiry_setItem_expiry timeout_of_def)

lemma persistSession_flag:
  "isBiometricEnabled (persistSession env js now key user st) = isBiometricEnabled st"
  by (cases "subtle_exportKey env key")
    (simp_all add: persistSession_def Let_def isBiometricEnabled_other storage_keys_distinct')

lemma timeout_of_persistSession: "timeout_of (persistSession env js now key user st) = timeout_of st"
  by (simp add: timeout_of_def persistSession_flag)

lemma timeout_of_memory:
  "timeout_of (st\<lparr>currentSessionKey := a, currentUser := b\<rparr>) = timeout_of st"
  by (simp add: timeout_of_def isBiometricEnabled_memory)

lemma persistSession_step:
  assumes "in_policy t st0" and "t \<le> now"
    and "persisted_expiry st = persisted_expiry st0" and "timeout_of st0 \<le> timeout_of st"
  shows "in_policy now (persistSession env js now key user st)
       \<and> \<not> decreases st0 (persistSession env js now key user st)"
  using persistSession_cases [of env js now key user st] assms
  by (auto simp add: in_policy_alt decreases_alt timeout_of_persistSession)


lemma timeout_of_le: "SESSION_TIMEOUT_MS \<le> timeout_of st" "timeout_of st \<le> BIOMETRIC_TIMEOUT_MS"
  by (simp_all add: timeout_of_def timeouts)

lemma unchanged_step:
  assumes "in_policy t st" and "t \<le> t'"
    and "persisted_expiry st' = persisted_expiry st" and "timeout_of st \<le> timeout_of st'"
  shows "in_policy t' st' \<and> \<not> decreases st st'"
  using assms by (auto simp add: in_policy_alt decreases_alt)

lemma cleared_step: "in_policy t (clearSession st') \<and> \<not> decreases st (clearSession st')"
  by (simp add: in_policy_alt decreases_alt persisted_expiry_clearSession)

lemma login_step:
  assumes "in_policy t st" and "t \<le> login_now io"
  shows "in_policy (login_now io) (snd (loginUser env js io email password st))
       \<and> \<not> decreases st (snd (loginUser env js io email password st))"
proof (cases "fst (loginUser env js io email password st)")
  case (Inl e)
  then have "snd (loginUser env js io email password st) = st"
    by (auto simp add: loginUser_def Let_def
        split: signIn_outcome.splits option.splits sum.splits)
  with assms show ?thesis by (simp add: unchanged_step)
next
  case (Inr user)
  then have "loginUser env js io email password st
               = (Inr user, snd (loginUser env js io email password st))"
    by (metis prod.collapse)
  then obtain key where
    "snd (loginUser env js io email password st)
       = persistSession env js (login_now io) key user
           (st\<lparr>currentSessionKey := Some key, currentUser := Some user\<rparr>)"
    by (rule loginUser_Inr)
  with assms show ?thesis
    by (simp add: persistSession_step persisted_expiry_memory timeout_of_memory)
qed

lemma restore_step:
  assumes "in_policy t st" and "t \<le> now1" and "now1 \<le> now2"
  shows "in_policy now2 (snd (restoreSession env js now1 now2 refresh_throws skip st))
       \<and> \<not> decreases st (snd (restoreSession env js now1 now2 refresh_throws skip st))"
proof -
  let ?r = "restoreSession env js now1 now2 refresh_throws skip st"
  have "snd ?r = st \<or> (\<exists>st'. snd ?r = clearSession st')
      \<or> (\<exists>key user. snd ?r = setItem SESSION_EXPIRY_STORAGE (toString (now2 + timeout_of st))
                         (st\<lparr>currentSessionKey := Some key, currentUser := user\<rparr>))"
    by (auto simp add: restoreSession_def Let_def timeout_of_def isBiometricEnabled_memory
        split: option.splits)
  then consider "snd ?r = st" | st' where "snd ?r = clearSession st'"
    | key user where "snd ?r = setItem SESSION_EXPIRY_STORAGE (toString (now2 + timeout_of st))
                         (st\<lparr>currentSessionKey := Some key, currentUser := user\<rparr>)"
    by blast
  then show ?thesis
  proof cases
    case 1
    with assms show ?thesis by (simp add: unchanged_step)
  next
    case 2
    then show ?thesis by (simp add: cleared_step)
  next
    case 3
    have "timeout_of (snd ?r) = timeout_of st"
      unfolding 3
      by (simp add: timeout_of_def isBiometricEnabled_other isBiometricEnabled_memory
          storage_keys_distinct')
    with 3 assms show ?thesis
      by (auto simp add: in_policy_alt decreases_alt persisted_expiry_setItem_expiry)
  qed
qed

lemma enable_step:
  assumes "in_policy t st" and "t \<le> enable_now io"
  shows "in_policy (enable_now io) (snd (enableBiometrics env js io st))
       \<and> \<not> decreases st (snd (enableBiometrics env js io st))"
proof -
  let ?st1 = "setItem SESSION_BIOMETRIC_ENABLED ''true'' st"
  have pe: "persisted_expiry ?st1 = persisted_expiry st"
    by (simp add: persisted_expiry_other storage_keys_distinct')
  have to: "timeout_of st \<le> timeout_of ?st1"
    by (simp add: timeout_of_def isBiometricEnabled_flag timeouts)
  have "snd (enableBiometrics env js io st) = st
      \<or> snd (enableBiometrics env js io st) = ?st1
      \<or> (\<exists>key user. snd (enableBiometrics env js io st)
             = persistSession env js (enable_now io) key user ?st1)"
    by (cases "biometricAvailable io"; cases "create_throws io";
        cases "currentSessionKey st"; cases "currentUser st")
      (auto simp add: enableBiometrics_def Let_def memory_setItem)
  then consider "snd (enableBiometrics env js io st) = st"
    | "snd (enableBiometrics env js io st) = ?st1"
    | key user where
      "snd (enableBiometrics env js io st) = persistSession env js (enable_now io) key user ?st1"
    by blast
  then show ?thesis
  proof cases
    case 1
    with assms show ?thesis by (simp add: unchanged_step)
  next
    case 2
    with assms pe to show ?thesis by (simp add: unchanged_step)
  next
    case 3
    with assms pe to show ?thesis by (simp add: persistSession_step)
  qed
qed

lemma logout_step: "in_policy t st \<Longrightarrow> in_policy t (snd (logoutUser signOut_throws st))"
  by (cases signOut_throws) (simp_all add: logoutUser_def cleared_step)

text \<open>No operation other than \<^verbatim>\<open>disableBiometrics\<close> leaves a write pending.\<close>

lemma pending_persistSession: "pending (persistSession env js now key user st) = pending st"
  by (simp add: persistSession_def Let_def pending_storage split: option.splits)

lemma pending_loginUser: "pending (snd (loginUser env js io email password st)) = pending st"
  by (auto simp add: loginUser_def Let_def pending_persistSession
      split: signIn_outcome.splits option.splits sum.splits)

lemma pending_restoreSession:
  "pending (snd (restoreSession env js now1 now2 refresh_throws skip st)) = pending st"
  by (auto simp add: restoreSession_def Let_def pending_storage split: option.splits)

lemma pending_enableBiometrics: "pending (snd (enableBiometrics env js io st)) = pending st"
  by (auto simp add: enableBiometrics_def Let_def pending_persistSession pending_storage
      split: option.splits)

lemma pending_logoutUser: "pending (snd (logoutUser signOut_throws st)) = pending st"
  by (simp add: logoutUser_def pending_storage split: option.splits)

text \<open>
  \<^verbatim>\<open>disableBiometrics\<close> in an unlocked state leaves one write pending, of a key that can
  be exported; the completion of that write puts the stored expiry in policy.
\<close>

lemma disable_step:
  assumes "unlocked env st" and "pending st = []"
  shows "\<exists>key user. pending (disableBiometrics st) = [(key, user)]
                    \<and> subtle_exportKey env key \<noteq> None"
  using assms
  by (auto simp add: unlocked_def disableBiometrics_def Let_def memory_removeItem
      pending_storage split: option.splits)

lemma completes_step:
  assumes "pending st = [(key, user)]" and "subtle_exportKey env key \<noteq> None"
  shows "pending (persistCompletes env js now st) = []
       \<and> in_policy now (persistCompletes env js now st)"
proof -
  let ?st1 = "st\<lparr>pending := []\<rparr>"
  from assms(1) have c: "persistCompletes env js now st = persistSession env js now key user ?st1"
    by (simp add: persistCompletes_def)
  from assms(2) have "persisted_expiry (persistSession env js now key user ?st1)
                        = Some (now + timeout_of ?st1)"
    by (auto simp add: persistSession_def Let_def persisted_expiry_setItem_expiry timeout_of_def)
  then show ?thesis
    unfolding c by (simp add: in_policy_alt timeout_of_persistSession pending_persistSession)
qed

text \<open>
  The invariant of a disciplined run: nothing is pending and the stored expiry is in
  policy, or the one write of a disabling is pending.
\<close>

lemma session_step:
  assumes "(pending st = [] \<and> in_policy t st)
           \<or> (\<exists>key user. pending st = [(key, user)] \<and> subtle_exportKey env key \<noteq> None)"
    and "clock_ok t op" and "settled env op st"
  shows "((pending (step env js op st) = [] \<and> in_policy (clock_after t op) (step env js op st))
          \<or> (\<exists>key user. pending (step env js op st) = [(key, user)]
                          \<and> subtle_exportKey env key \<noteq> None))
       \<and> (exempt op \<or> \<not> decreases st (step env js op st))"
proof (cases op)
  case (Login io email password)
  with assms have "pending st = []" "in_policy t st" "t \<le> login_now io"
    by (auto simp add: settled_def clock_ok_def)
  with Login login_step [where t=t and st=st and io=io and env=env and js=js] show ?thesis
    by (simp add: step_def clock_after_def pending_loginUser)
next
  case (Restore now1 now2 refresh_throws skip)
  with assms have "pending st = []" "in_policy t st" "t \<le> now1" "now1 \<le> now2"
    by (auto simp add: settled_def clock_ok_def)
  with Restore
    restore_step [where t=t and st=st and ?now1.0=now1 and ?now2.0=now2 and env=env and js=js]
  show ?thesis
    by (simp add: step_def clock_after_def pending_restoreSession)
next
  case (EnableBiometrics io)
  with assms have "pending st = []" "in_policy t st" "t \<le> enable_now io"
    by (auto simp add: settled_def clock_ok_def)
  with EnableBiometrics enable_step [where t=t and st=st and io=io and env=env and js=js]
  show ?thesis
    by (simp add: step_def clock_after_def pending_enableBiometrics)
next
  case DisableBiometrics
  with assms have "pending st = []" "unlocked env st"
    by (auto simp add: settled_def)
  with DisableBiometrics disable_step [of env st] show ?thesis
    by (simp add: step_def exempt_def)
next
  case (PersistCompletes now)
  with assms obtain key user where
    "pending st = [(key, user)]" "subtle_exportKey env key \<noteq> None"
    by (auto simp add: settled_def)
  with PersistCompletes completes_step [of st key user env js now] show ?thesis
    by (simp add: step_def clock_after_def exempt_def)
next
  case (Logout signOut_throws)
  with assms have "pending st = []" "in_policy t st"
    by (auto simp add: settled_def)
  with Logout logout_step [where t=t and st=st] show ?thesis
    by (simp add: step_def clock_after_def exempt_def pending_logoutUser)
next
  case Reload
  with assms have "pending st = []" "in_policy t st"
    by (auto simp add: settled_def)
  with Reload
    unchanged_step [of t st t "st\<lparr>currentSessionKey := None, currentUser := None, pending := []\<rparr>"]
  show ?thesis
    by (simp add: step_def clock_after_def persisted_expiry_def timeout_of_def
        isBiometricEnabled_def getItem_def)
qed

text \<open>
  Claim C7, as amended: along every sequence of logins, restores, enablings, disablings,
  logouts and page reloads that starts with nothing pending and the stored expiry in
  policy (empty storage is), reads a clock that does not run backwards, calls
  \<^verbatim>\<open>disableBiometrics\<close> only in an unlocked state and lets the write that a disabling
  starts complete before anything else runs, no step other than a logout or a disabling
  (its call and the completion of its write) lowers the persisted expiry timestamp.
\<close>

theorem expiry_never_decreases:
  assumes "in_policy t st" and "pending st = []" and "disciplined env js t st ops"
  shows "never_decreases env js st ops"
proof -
  have "never_decreases env js st ops"
    if "(pending st = [] \<and> in_policy t st)
        \<or> (\<exists>key user. pending st = [(key, user)] \<and> subtle_exportKey env key \<noteq> None)"
      and "disciplined env js t st ops"
    for t st
    using that
  proof (induction ops arbitrary: t st)
    case Nil
    then show ?case by simp
  next
    case (Cons op ops)
    from Cons.prems(2) have ok: "clock_ok t op" and se: "settled env op st"
      and rest: "disciplined env js (clock_after t op) (step env js op st) ops"
      by simp_all
    from session_step [OF Cons.prems(1) ok se, of js]
    have inv: "(pending (step env js op st) = []
                  \<and> in_policy (clock_after t op) (step env js op st))
               \<or> (\<exists>key user. pending (step env js op st) = [(key, user)]
                               \<and> subtle_exportKey env key \<noteq> None)"
      and ex: "exempt op \<or> \<not> decreases st (step env js op st)"
      by simp_all
    from Cons.IH [OF inv rest] ex show ?case by simp
  qed
  with assms show ?thesis by blast
qed
subsection \<open>Session controller: concrete evaluations\<close>

lemmas session_eval =
  restoreSession_def restoreSession_0_def persistSession_def clearSession_def getItem_def
  setItem_def removeItem_def truthy_def isBiometricEnabled_def persisted_expiry_def
  SESSION_KEY_STORAGE_def SESSION_USER_STORAGE_def SESSION_EXPIRY_STORAGE_def
  SESSION_BIOMETRIC_ENABLED_def SESSION_TIMEOUT_MS_def BIOMETRIC_TIMEOUT_MS_def
  parseInt_def is_str_whitespace_def is_digit_def digit_value_def decimal_def
  toString_def digits.simps digit_char_def parse_user_def parses_null_def json_whitespace_def
  toy_json_def toy_browser_def cold_state_def empty_state_def Let_def

lemma toy_salt: "base64ToBuffer ''AAAA'' = Inr [0, 0, 0]"
  by code_simp

lemmas login_eval =
  loginUser_def deriveKey_def generateSalt_def login_catch_def toy_login_def toy_enable_def
  enableBiometrics_def disableBiometrics_def persistCompletes_def logoutUser_def step_def
  toy_salt toy_user_def

lemmas run_eval =
  login_eval session_eval decreases_def exempt_def clock_ok_def clock_after_def unlocked_def
  settled_def in_policy_def timeout_of_def

theorem restoreSession_expired_clears_witness:
  "restoreSession toy_browser toy_json 2000 2000 False False (cold_state ''1000'')
     = (False, clearSession (cold_state ''1000''))
   \<and> getItem (clearSession (cold_state ''1000'')) SESSION_KEY_STORAGE = None
   \<and> getItem (clearSession (cold_state ''1000'')) SESSION_USER_STORAGE = None
   \<and> getItem (clearSession (cold_state ''1000'')) SESSION_EXPIRY_STORAGE = None
   \<and> currentSessionKey (clearSession (cold_state ''1000'')) = None"
proof -
  have e: "persisted_expiry (cold_state ''1000'') = Some 1000"
    by (simp add: session_eval)
  have m: "currentSessionKey (cold_state ''1000'') = None"
    by (simp add: cold_state_def)
  from restoreSession_expired_clears
         [OF e, where ?now1.0 = 2000 and env = toy_browser and js = toy_json
            and ?now2.0 = 2000 and refresh_throws = False and skip = False] m
  show ?thesis by simp
qed

text \<open>
  The claim as stated fails where a key is in memory at the call: the record is expired,
  the call returns false, and the key is still in memory.
\<close>

theorem restoreSession_expired_keeps_memory:
  "persisted_expiry (unlocked_expired_state) = Some 1000
   \<and> (1000 :: int) < 2000
   \<and> fst (restoreSession toy_browser toy_json 2000 2000 False False unlocked_expired_state) = False
   \<and> currentSessionKey
         (snd (restoreSession toy_browser toy_json 2000 2000 False False unlocked_expired_state))
       = Some 7"
  by (simp add: unlocked_expired_state_def session_eval)

theorem restoreSession_failure_witness:
  "restoreSession toy_browser toy_json 2000 2000 False False badjwk_state
     = (False, clearSession badjwk_state)
   \<and> restoreSession toy_browser toy_json 2000 2000 False False nokey_state = (False, nokey_state)
   \<and> currentSessionKey (snd (restoreSession toy_browser toy_json 2000 2000 False False badjwk_state))
       = currentSessionKey badjwk_state"
proof -
  have b: "truthy (getItem badjwk_state SESSION_EXPIRY_STORAGE) = Some ''5000''"
    "\<not> (case parseInt ''5000'' of None \<Rightarrow> False | Some e \<Rightarrow> (2000 :: int) > e)"
    "\<not> (isBiometricEnabled badjwk_state \<and> \<not> False)"
    "truthy (getItem badjwk_state SESSION_KEY_STORAGE) = Some ''garbage''"
    "truthy (getItem badjwk_state SESSION_USER_STORAGE) = Some ''{u1}''"
    "parse (JSON_jwk toy_json) ''garbage'' = None"
    by (simp_all add: badjwk_state_def session_eval)
  have n: "truthy (getItem nokey_state SESSION_EXPIRY_STORAGE) = Some ''5000''"
    "\<not> (isBiometricEnabled nokey_state \<and> \<not> False)"
    "truthy (getItem nokey_state SESSION_KEY_STORAGE) = None"
    by (simp_all add: nokey_state_def session_eval)
  from restoreSession_failure
         [OF b(1) b(2) b(3), where env = toy_browser and js = toy_json and ?now2.0 = 2000
            and refresh_throws = False] b(4,5,6)
  have 1: "restoreSession toy_browser toy_json 2000 2000 False False badjwk_state
             = (False, clearSession badjwk_state)"
    by blast
  from restoreSession_failure
         [OF n(1) b(2) n(2), where env = toy_browser and js = toy_json and ?now2.0 = 2000
            and refresh_throws = False] n(3)
  have 2: "restoreSession toy_browser toy_json 2000 2000 False False nokey_state = (False, nokey_state)"
    by blast
  from 1 2 show ?thesis by (simp add: memory_clearSession)
qed

text \<open>
  The claim as stated fails where the JWK entry is missing: the call returns false and
  the expiry timestamp and the user profile stay in local storage.
\<close>

theorem restoreSession_missing_key_not_cleared:
  "persisted_expiry nokey_state = Some 5000
   \<and> fst (restoreSession toy_browser toy_json 2000 2000 False False nokey_state) = False
   \<and> getItem (snd (restoreSession toy_browser toy_json 2000 2000 False False nokey_state))
        SESSION_EXPIRY_STORAGE = Some ''5000''
   \<and> getItem (snd (restoreSession toy_browser toy_json 2000 2000 False False nokey_state))
        SESSION_USER_STORAGE = Some ''{u1}''"
  by (simp add: nokey_state_def session_eval)

lemma toy_login_result:
  "fst (loginUser toy_browser toy_json (toy_login 1000) ''a@x.com'' ''pw'' empty_state) = Inr toy_user"
  "currentSessionKey (snd (loginUser toy_browser toy_json (toy_login 1000) ''a@x.com'' ''pw'' empty_state))
     = Some 5"
  by (simp_all add: login_eval session_eval)

theorem login_expiry_witness:
  "getItem (snd (loginUser toy_browser toy_json (toy_login 1000) ''a@x.com'' ''pw'' empty_state))
     SESSION_EXPIRY_STORAGE = Some ''1201000''"
proof -
  let ?r = "loginUser toy_browser toy_json (toy_login 1000) ''a@x.com'' ''pw'' empty_state"
  have r: "?r = (Inr toy_user, snd ?r)"
    using toy_login_result(1) by (metis prod.collapse)
  have x: "subtle_exportKey toy_browser 5 = Some (toString 5)"
    by (simp add: toy_browser_def)
  have b: "\<not> isBiometricEnabled empty_state"
    by (simp add: session_eval)
  have t: "toString (1000 + 20 * 60 * 1000) = ''1201000''"
    by (simp add: session_eval)
  from login_expiry [OF r toy_login_result(2) x] b t show ?thesis
    by (simp add: toy_login_def)
qed

text \<open>
  On the record whose profile entry is the text \<^verbatim>\<open>null\<close> the call returns true, with
  key 7 in memory and no user; and when the write of the refreshed expiry throws on a
  well-formed record, the call returns false with key 7 and the user in memory.
\<close>

lemma restoreSession_null_profile_toy:
  "fst (restoreSession toy_browser toy_json 2000 2000 False False nulluser_state)
   \<and> currentSessionKey
         (snd (restoreSession toy_browser toy_json 2000 2000 False False nulluser_state)) = Some 7
   \<and> currentUser
         (snd (restoreSession toy_browser toy_json 2000 2000 False False nulluser_state)) = None"
  by (simp add: nulluser_state_def session_eval)

lemma restoreSession_refresh_throws_toy:
  "\<not> fst (restoreSession toy_browser toy_json 2000 2000 True False (cold_state ''5000''))
   \<and> currentSessionKey
         (snd (restoreSession toy_browser toy_json 2000 2000 True False (cold_state ''5000'')))
       = Some 7
   \<and> currentUser
         (snd (restoreSession toy_browser toy_json 2000 2000 True False (cold_state ''5000'')))
       \<noteq> None
   \<and> getItem (snd (restoreSession toy_browser toy_json 2000 2000 True False (cold_state ''5000'')))
         SESSION_KEY_STORAGE = None"
  by (simp add: session_eval)

lemma good_run_disciplined: "disciplined toy_browser toy_json 0 empty_state good_run"
  by (simp add: good_run_def run_eval)

theorem expiry_never_decreases_witness:
  "in_policy 0 empty_state \<and> pending empty_state = []
   \<and> disciplined toy_browser toy_json 0 empty_state good_run
   \<and> never_decreases toy_browser toy_json empty_state good_run"
proof -
  have p: "in_policy 0 empty_state"
    by (simp add: run_eval)
  have q: "pending (empty_state :: byte app_state) = []"
    by (simp add: empty_state_def)
  from expiry_never_decreases [OF p q good_run_disciplined] p q good_run_disciplined
  show ?thesis by simp
qed

text \<open>
  The claim as stated fails on \<open>bad_run\<close>: the login under the enabled preference stores
  an expiry seven days ahead, the disabling after the reload finds no key in memory and
  only removes the flag, and the restore then stores an expiry twenty minutes ahead.
\<close>

theorem expiry_decreases_after_reload:
  "\<not> never_decreases toy_browser toy_json empty_state bad_run"
  by (simp add: bad_run_def run_eval)

text \<open>
  It fails on \<open>race_run\<close> too: the disabling is called with the key in memory, the page
  is reloaded before the write it started has run, and the restore lowers the expiry.
\<close>

lemma expiry_decreases_when_reload_overtakes_write:
  "\<not> never_decreases toy_browser toy_json empty_state race_run"
  by (simp add: race_run_def run_eval)
subsection \<open>Sync coordinator\<close>

lemma getUserDataRaw_remote:
  assumes "onLine io" and "select io = SelectReturns (Some d) False"
    and "\<not> cache_write_throws io"
  shows "getUserDataRaw lib io uid st
           = (Inr (Some d), setItem (user_data_key uid) (stringify (JSON_payload lib) d) st)"
  using assms by (simp add: getUserDataRaw_def Let_def)

lemma getUserDataRaw_fallback:
  assumes "\<not> onLine io \<or> remote_failed io"
  shows "getUserDataRaw lib io uid st = (readLocal lib (user_data_key uid) st, st)"
  using assms
  by (cases "onLine io")
    (auto simp add: getUserDataRaw_def remote_failed_def Let_def
      split: select_outcome.splits option.splits)

lemma getUserDataRaw_write_throws:
  assumes "cache_write_throws io"
  shows "getUserDataRaw lib io uid st = (readLocal lib (user_data_key uid) st, st)"
  using assms
  by (cases "onLine io")
    (auto simp add: getUserDataRaw_def Let_def split: select_outcome.splits option.splits)

lemma getUserDataRaw_cases:
  "(onLine io \<and> (\<exists>d. select io = SelectReturns (Some d) False)) \<or> \<not> onLine io \<or> remote_failed io"
  by (auto simp add: remote_failed_def split: select_outcome.splits option.splits)

lemma readLocal_cases:
  "readLocal lib k st =
     (case getItem st k of
        None \<Rightarrow> Inr None
      | Some cached \<Rightarrow>
          if cached = [] \<or> parses_null cached then Inr None
          else (case parse (JSON_payload lib) cached of
                  None \<Rightarrow> Inl SyntaxError
                | Some p \<Rightarrow> Inr (Some p)))"
  by (simp add: readLocal_def truthy_def split: option.splits)

lemma readLocal_null:
  assumes "readLocal lib k st = Inr None"
  shows "getItem st k = None \<or> getItem st k = Some []
         \<or> (\<exists>cached. getItem st k = Some cached \<and> parses_null cached)"
  using assms by (auto simp add: readLocal_cases split: option.splits if_splits)

text \<open>
  Claim C8, as amended. When the network is reachable, the remote read succeeds and the
  write of the cache does not throw, \<^verbatim>\<open>getUserDataRaw\<close> returns the remote blob, and
  afterwards the cache entry of the user reads back as that blob's text while every
  other entry is as before. When offline or when the remote read fails, it leaves the
  storage as it is and returns what \<^verbatim>\<open>JSON.parse\<close> makes of the cache entry: null when
  the entry is missing, empty or the text \<^verbatim>\<open>null\<close>, an exception when the entry is not
  JSON, the cached blob otherwise. Where the write of the cache does not throw, it
  returns null only when the remote read did not succeed and the cache entry is
  missing, empty or the text \<^verbatim>\<open>null\<close>.
\<close>

theorem getUserDataRaw_remote_first:
  "(onLine io \<and> select io = SelectReturns (Some d) False \<and> \<not> cache_write_throws io \<longrightarrow>
      fst (getUserDataRaw lib io uid st) = Inr (Some d)
      \<and> getItem (snd (getUserDataRaw lib io uid st)) (user_data_key uid)
          = Some (stringify (JSON_payload lib) d)
      \<and> (\<forall>k. k \<noteq> user_data_key uid \<longrightarrow>
             getItem (snd (getUserDataRaw lib io uid st)) k = getItem st k)
      \<and> snd (getUserDataRaw lib io uid st)
          = setItem (user_data_key uid) (stringify (JSON_payload lib) d) st)
   \<and> (\<not> onLine io \<or> remote_failed io \<longrightarrow>
        snd (getUserDataRaw lib io uid st) = st
        \<and> fst (getUserDataRaw lib io uid st)
            = (case getItem st (user_data_key uid) of
                 None \<Rightarrow> Inr None
               | Some cached \<Rightarrow>
                   if cached = [] \<or> parses_null cached then Inr None
                   else (case parse (JSON_payload lib) cached of
                           None \<Rightarrow> Inl SyntaxError
                         | Some p \<Rightarrow> Inr (Some p))))
   \<and> (fst (getUserDataRaw lib io uid st) = Inr None \<and> \<not> cache_write_throws io \<longrightarrow>
        (\<not> onLine io \<or> remote_failed io)
        \<and> (getItem st (user_data_key uid) = None
             \<or> getItem st (user_data_key uid) = Some []
             \<or> (\<exists>cached. getItem st (user_data_key uid) = Some cached \<and> parses_null cached)))"
proof (intro conjI impI)
  assume a: "onLine io \<and> select io = SelectReturns (Some d) False \<and> \<not> cache_write_throws io"
  then have r: "getUserDataRaw lib io uid st
        = (Inr (Some d), setItem (user_data_key uid) (stringify (JSON_payload lib) d) st)"
    by (simp add: getUserDataRaw_remote)
  show "fst (getUserDataRaw lib io uid st) = Inr (Some d)"
    by (simp add: r)
  show "getItem (snd (getUserDataRaw lib io uid st)) (user_data_key uid)
          = Some (stringify (JSON_payload lib) d)"
    by (simp add: r getItem_setItem)
  show "\<forall>k. k \<noteq> user_data_key uid \<longrightarrow>
             getItem (snd (getUserDataRaw lib io uid st)) k = getItem st k"
    by (simp add: r getItem_setItem)
  show "snd (getUserDataRaw lib io uid st)
          = setItem (user_data_key uid) (stringify (JSON_payload lib) d) st"
    by (simp add: r)
next
  assume a: "\<not> onLine io \<or> remote_failed io"
  show "snd (getUserDataRaw lib io uid st) = st"
    by (simp add: getUserDataRaw_fallback [OF a])
  show "fst (getUserDataRaw lib io uid st)
            = (case getItem st (user_data_key uid) of
                 None \<Rightarrow> Inr None
               | Some cached \<Rightarrow>
                   if cached = [] \<or> parses_null cached then Inr None
                   else (case parse (JSON_payload lib) cached of
                           None \<Rightarrow> Inl SyntaxError
                         | Some p \<Rightarrow> Inr (Some p)))"
    by (simp add: getUserDataRaw_fallback [OF a] readLocal_cases)
next
  assume n: "fst (getUserDataRaw lib io uid st) = Inr None \<and> \<not> cache_write_throws io"
  from getUserDataRaw_cases [of io]
  show f: "\<not> onLine io \<or> remote_failed io"
  proof (elim disjE)
    assume "onLine io \<and> (\<exists>d. select io = SelectReturns (Some d) False)"
    then obtain d where "onLine io" "select io = SelectReturns (Some d) False" by blast
    moreover from n have "\<not> cache_write_throws io" by simp
    ultimately have "fst (getUserDataRaw lib io uid st) = Inr (Some d)"
      by (simp add: getUserDataRaw_remote)
    with n show ?thesis by simp
  qed simp_all
  then have "getUserDataRaw lib io uid st = (readLocal lib (user_data_key uid) st, st)"
    by (rule getUserDataRaw_fallback)
  with n have "readLocal lib (user_data_key uid) st = Inr None"
    by simp
  then show "getItem st (user_data_key uid) = None
             \<or> getItem st (user_data_key uid) = Some []
             \<or> (\<exists>cached. getItem st (user_data_key uid) = Some cached \<and> parses_null cached)"
    by (rule readLocal_null)
qed

text \<open>
  What the statement above leaves aside: when the remote read succeeds and the write of
  the cache throws, the \<^verbatim>\<open>catch\<close> swallows the exception, the remote blob is dropped and
  the call answers from the cache as it was.
\<close>

lemma getUserDataRaw_cache_write_throws:
  assumes "onLine io" and "select io = SelectReturns (Some d) False"
    and "cache_write_throws io" and "getItem st (user_data_key uid) = None"
  shows "getUserDataRaw lib io uid st = (Inr None, st)"
  using assms by (simp add: getUserDataRaw_write_throws readLocal_cases)

lemma toy_payload_text:
  "stringify (JSON_payload toy_lib) old_blob = ''AQIDBAUGBwgJCgsM:B1Y=''"
  "parse (JSON_payload toy_lib) ''AQIDBAUGBwgJCgsM:B1Y='' = Some old_blob"
  "\<not> parses_null ''AQIDBAUGBwgJCgsM:B1Y=''"
  "parses_null ''null''"
  by (simp_all add: toy_lib_def old_blob_def parses_null_def json_whitespace_def)

theorem getUserDataRaw_remote_first_witness:
  "fst (getUserDataRaw toy_lib (online old_blob) ''u1'' empty_state) = Inr (Some old_blob)
   \<and> getItem (snd (getUserDataRaw toy_lib (online old_blob) ''u1'' empty_state))
        (user_data_key ''u1'') = Some ''AQIDBAUGBwgJCgsM:B1Y=''
   \<and> getUserDataRaw toy_lib offline ''u1'' (auth_state 7) = (Inr (Some old_blob), auth_state 7)
   \<and> getUserDataRaw toy_lib offline ''u1'' empty_state = (Inr None, empty_state)"
proof -
  have on: "onLine (online old_blob) \<and> select (online old_blob) = SelectReturns (Some old_blob) False
            \<and> \<not> cache_write_throws (online old_blob)"
    by (simp add: online_def)
  have off: "\<not> onLine offline \<or> remote_failed offline"
    by (simp add: offline_def)
  have c: "getItem (auth_state 7) (user_data_key ''u1'') = Some ''AQIDBAUGBwgJCgsM:B1Y=''"
    "getItem empty_state (user_data_key ''u1'') = None"
    by (simp_all add: auth_state_def empty_state_def getItem_def)
  from getUserDataRaw_remote_first
         [of "online old_blob" old_blob toy_lib "''u1''" "empty_state :: byte app_state"] on
  have 1: "fst (getUserDataRaw toy_lib (online old_blob) ''u1'' empty_state) = Inr (Some old_blob)
     \<and> getItem (snd (getUserDataRaw toy_lib (online old_blob) ''u1'' empty_state))
          (user_data_key ''u1'') = Some ''AQIDBAUGBwgJCgsM:B1Y=''"
    by (simp add: toy_payload_text getItem_setItem)
  from getUserDataRaw_remote_first [of offline _ toy_lib "''u1''" "auth_state 7"] off
  have "snd (getUserDataRaw toy_lib offline ''u1'' (auth_state 7)) = auth_state 7
      \<and> fst (getUserDataRaw toy_lib offline ''u1'' (auth_state 7)) = Inr (Some old_blob)"
    by (simp add: c toy_payload_text)
  then have 2: "getUserDataRaw toy_lib offline ''u1'' (auth_state 7)
                  = (Inr (Some old_blob), auth_state 7)"
    by (metis prod.collapse)
  from getUserDataRaw_remote_first [of offline _ toy_lib "''u1''" "empty_state :: byte app_state"]
    off
  have "snd (getUserDataRaw toy_lib offline ''u1'' empty_state) = empty_state
      \<and> fst (getUserDataRaw toy_lib offline ''u1'' empty_state) = Inr None"
    by (simp add: c)
  then have 3: "getUserDataRaw toy_lib offline ''u1'' empty_state = (Inr None, empty_state)"
    by (metis prod.collapse)
  from 1 2 3 show ?thesis by simp
qed

text \<open>
  The claim as stated fails where the cache entry is the text \<^verbatim>\<open>null\<close>: offline, the
  call returns null although a local cache entry exists.
\<close>

theorem getUserDataRaw_null_with_cache_entry:
  "getItem null_cache_state (user_data_key ''u1'') = Some ''null''
   \<and> \<not> onLine offline
   \<and> getUserDataRaw toy_lib offline ''u1'' null_cache_state = (Inr None, null_cache_state)"
  by (simp add: null_cache_state_def getItem_setItem getUserDataRaw_def Let_def offline_def
      readLocal_def truthy_def toy_payload_text)
subsection \<open>Wallet operations\<close>





lemma card_id_dropExpired: "card_id (dropExpired lib t c) = card_id c"
  by (simp add: dropExpired_def)










subsection \<open>Wallet operations: concrete evaluations\<close>








subsection \<open>Saving cards keeps the settings\<close>




subsection \<open>Saving cards: concrete evaluations\<close>








end
